theory Spec2Isabelle
  imports Main "HOL-Library.Sublist"
begin

section \<open>JavaScript values and payloads\<close>

text \<open>
  Everything the gateway sends (a response body given to \<open>res.json\<close>, a payload given to
  \<open>io.emit\<close>) is a JavaScript value. Objects are association lists of own properties in
  insertion order; a \<open>Date\<close> is its number of milliseconds since the epoch.
\<close>

type_synonym timestamp = int

datatype js =
    JNull
  | JBool bool
  | JNum int
  | JStr string
  | JDate timestamp
  | JArr "js list"
  | JObj "(string \<times> js) list"

type_synonym obj = "(string \<times> js) list"

text \<open>\<open>has_field k v\<close>: some object inside \<open>v\<close>, at any depth, has an own property \<open>k\<close>.\<close>

fun has_field :: "string \<Rightarrow> js \<Rightarrow> bool" where
  "has_field k (JArr vs) = list_ex (has_field k) vs"
| "has_field k (JObj kvs) = list_ex (\<lambda>kv. fst kv = k \<or> has_field k (snd kv)) kvs"
| "has_field k _ = False"

text \<open>
  The object rest pattern \<open>const { password, ...publicUser } = user\<close>: every own property
  but the named one, in order.
\<close>

definition rest_without :: "string \<Rightarrow> obj \<Rightarrow> obj" where
  "rest_without k ob = filter (\<lambda>kv. fst kv \<noteq> k) ob"

text \<open>Truthiness of the values a condition such as \<open>if (token)\<close> meets.\<close>

fun truthy :: "js \<Rightarrow> bool" where
  "truthy JNull = False"
| "truthy (JBool b) = b"
| "truthy (JNum n) = (n \<noteq> 0)"
| "truthy (JStr s) = (s \<noteq> [])"
| "truthy _ = True"

section \<open>Thrown values, responses, \<open>handleError\<close>\<close>

text \<open>
  What a \<open>catch (error)\<close> clause can receive: a \<open>z.ZodError\<close> with the messages of its
  issues in order, any other instance of \<open>Error\<close> with its message, or a value that is
  no \<open>Error\<close> at all.
\<close>

datatype thrown =
    ZodError "string list"
  | Error string
  | NonError js

datatype cookie_op = NoCookie | SetCookie string | ClearCookie

record response =
  http_status :: nat
  body :: js
  cookie :: cookie_op

definition json_reply :: "nat \<Rightarrow> js \<Rightarrow> response" where
  "json_reply st v = \<lparr>http_status = st, body = v, cookie = NoCookie\<rparr>"

definition message_reply :: "nat \<Rightarrow> string \<Rightarrow> response" where
  "message_reply st m = json_reply st (JObj [(''message'', JStr m)])"

text \<open>
  \<open>error.errors[0]?.message || "Validation error"\<close>: the first issue's message, unless
  there is no issue or the message is the empty string.
\<close>

definition first_issue_message :: "string list \<Rightarrow> string" where
  "first_issue_message issues =
     (case issues of
        [] \<Rightarrow> ''Validation error''
      | m # _ \<Rightarrow> if m \<noteq> [] then m else ''Validation error'')"

fun handleError :: "thrown \<Rightarrow> string \<Rightarrow> response" where
  "handleError (ZodError issues) defaultMessage = message_reply 400 (first_issue_message issues)"
| "handleError (Error m) defaultMessage = message_reply 400 m"
| "handleError (NonError v) defaultMessage = message_reply 500 defaultMessage"

section \<open>Data model (shared schema)\<close>

datatype Priority = Low | Medium | High | Urgent

datatype Status = Todo | In_progress | Review | Completed

text \<open>A row of the \<open>users\<close> table.\<close>

record User =
  user_id :: string
  username :: string
  email :: string
  password :: string
  displayName :: "string option"
  user_createdAt :: timestamp

text \<open>A row of the \<open>tasks\<close> table; a nullable column is an \<open>option\<close>.\<close>

record Task =
  task_id :: string
  title :: string
  description :: "string option"
  dueDate :: "timestamp option"
  priority :: Priority
  status :: Status
  creatorId :: string
  assignedToId :: "string option"
  createdAt :: timestamp
  updatedAt :: timestamp

text \<open>\<open>UserPublic = Omit<User, "password">\<close>: at run time, whatever object the rest pattern left.\<close>

type_synonym UserPublic = obj

text \<open>\<open>TaskWithRelations = Task & { creator: UserPublic; assignedTo: UserPublic | null }\<close>\<close>

record TaskWithRelations = Task +
  creator :: UserPublic
  assignedTo :: "UserPublic option"

text \<open>
  A property of a parsed body that may be missing (\<open>undefined\<close>), \<open>null\<close> or a value:
  the three cases of \<open>z.string().nullable().optional()\<close>.
\<close>

datatype 'a field = Absent | Null | Val 'a

record RegisterData =
  reg_username :: string
  reg_email :: string
  reg_password :: string
  reg_displayName :: "string option"

record LoginData =
  login_email :: string
  login_password :: string

record InsertUser =
  iu_username :: string
  iu_email :: string
  iu_password :: string
  iu_displayName :: "string option"

record InsertTask =
  ins_title :: string
  ins_description :: "string field"
  ins_dueDate :: "string field"
  ins_priority :: "Priority option"
  ins_status :: "Status option"
  ins_assignedToId :: "string field"

text \<open>\<open>updateTaskSchema = insertTaskSchema.partial()\<close>: every property may be missing.\<close>

record UpdateTask =
  upd_title :: "string option"
  upd_description :: "string field"
  upd_dueDate :: "string field"
  upd_priority :: "Priority option"
  upd_status :: "Status option"
  upd_assignedToId :: "string field"

record JWTPayload =
  userId :: string
  jwt_email :: string

subsection \<open>Rows as JavaScript objects\<close>

definition opt_str :: "string option \<Rightarrow> js" where
  "opt_str s = (case s of None \<Rightarrow> JNull | Some x \<Rightarrow> JStr x)"

definition opt_date :: "timestamp option \<Rightarrow> js" where
  "opt_date d = (case d of None \<Rightarrow> JNull | Some x \<Rightarrow> JDate x)"

fun priority_str :: "Priority \<Rightarrow> string" where
  "priority_str Low = ''low''"
| "priority_str Medium = ''medium''"
| "priority_str High = ''high''"
| "priority_str Urgent = ''urgent''"

fun status_str :: "Status \<Rightarrow> string" where
  "status_str Todo = ''todo''"
| "status_str In_progress = ''in_progress''"
| "status_str Review = ''review''"
| "status_str Completed = ''completed''"

text \<open>The object a select returns for a row: one property per column of the table.\<close>

definition user_row :: "User \<Rightarrow> obj" where
  "user_row u =
     [(''id'', JStr (user_id u)),
      (''username'', JStr (username u)),
      (''email'', JStr (email u)),
      (''password'', JStr (password u)),
      (''displayName'', opt_str (displayName u)),
      (''createdAt'', JDate (user_createdAt u))]"

definition task_row :: "'a Task_scheme \<Rightarrow> obj" where
  "task_row t =
     [(''id'', JStr (task_id t)),
      (''title'', JStr (title t)),
      (''description'', opt_str (description t)),
      (''dueDate'', opt_date (dueDate t)),
      (''priority'', JStr (priority_str (priority t))),
      (''status'', JStr (status_str (status t))),
      (''creatorId'', JStr (creatorId t)),
      (''assignedToId'', opt_str (assignedToId t)),
      (''createdAt'', JDate (createdAt t)),
      (''updatedAt'', JDate (updatedAt t))]"

text \<open>\<open>{ ...task, creator, assignedTo }\<close> as the value a response or an event carries.\<close>

definition twr_js :: "TaskWithRelations \<Rightarrow> js" where
  "twr_js t =
     JObj (task_row t @
       [(''creator'', JObj (creator t)),
        (''assignedTo'', (case assignedTo t of None \<Rightarrow> JNull | Some a \<Rightarrow> JObj a))])"

section \<open>Collaborators\<close>

text \<open>
  The libraries the server calls are parameters of the model: the four zod schemas'
  \<open>parse\<close> (\<open>Inl\<close> the issue messages of the \<open>ZodError\<close> it throws), bcrypt,
  jsonwebtoken with the process's secret (\<open>None\<close> when \<open>jwt.verify\<close> throws),
  \<open>randomUUID()\<close>, the clock read by \<open>new Date()\<close>, and the \<open>Date\<close> constructor on a
  string (\<open>None\<close> for an Invalid Date). One \<open>env\<close> is what they return during one request.
\<close>

record env =
  parseRegister :: "js \<Rightarrow> string list + RegisterData"
  parseLogin :: "js \<Rightarrow> string list + LoginData"
  parseInsertTask :: "js \<Rightarrow> string list + InsertTask"
  parseUpdateTask :: "js \<Rightarrow> string list + UpdateTask"
  bcrypt_hash :: "string \<Rightarrow> string"
  bcrypt_compare :: "string \<Rightarrow> string \<Rightarrow> bool"
  jwt_sign :: "JWTPayload \<Rightarrow> string"
  jwt_verify :: "string \<Rightarrow> JWTPayload option"
  randomUUID :: string
  now :: timestamp
  newDate :: "string \<Rightarrow> timestamp option"

section \<open>Storage (\<open>DatabaseStorage\<close>)\<close>

text \<open>
  The relational store: the two tables, rows in insertion order. The constraints the
  schema declares are the store's: the primary keys, the unique \<open>username\<close> and \<open>email\<close>,
  and the two \<open>references(() => users.id)\<close> of \<open>tasks\<close>. A statement that breaks one throws
  and changes nothing. The driver's message texts are shortened.
\<close>

record db =
  users :: "User list"
  tasks :: "Task list"

definition unique_violation :: thrown where
  "unique_violation = Error ''duplicate key value violates unique constraint''"

definition fk_violation :: thrown where
  "fk_violation = Error ''insert or update on table tasks violates foreign key constraint''"

text \<open>Writing an Invalid Date into a timestamp column: \<open>toISOString\<close> throws a RangeError.\<close>

definition invalid_time :: thrown where
  "invalid_time = Error ''Invalid time value''"

text \<open>The TypeError of destructuring \<open>undefined\<close>.\<close>

definition destructure_undefined :: thrown where
  "destructure_undefined = Error ''Cannot destructure property password of user as it is undefined.''"

definition toPublicUser :: "User \<Rightarrow> UserPublic" where
  "toPublicUser user = rest_without ''password'' (user_row user)"

definition getUser :: "db \<Rightarrow> string \<Rightarrow> User option" where
  "getUser d i = find (\<lambda>u. user_id u = i) (users d)"

definition getUserByUsername :: "db \<Rightarrow> string \<Rightarrow> User option" where
  "getUserByUsername d n = find (\<lambda>u. username u = n) (users d)"

definition getUserByEmail :: "db \<Rightarrow> string \<Rightarrow> User option" where
  "getUserByEmail d e = find (\<lambda>u. email u = e) (users d)"

definition createUser :: "env \<Rightarrow> db \<Rightarrow> InsertUser \<Rightarrow> (thrown + User) \<times> db" where
  "createUser env d insertUser =
     (let user = \<lparr>user_id = randomUUID env,
                  username = iu_username insertUser,
                  email = iu_email insertUser,
                  password = iu_password insertUser,
                  displayName = iu_displayName insertUser,
                  user_createdAt = now env\<rparr>
      in if list_ex (\<lambda>u. user_id u = user_id user \<or> username u = username user
                          \<or> email u = email user) (users d)
         then (Inl unique_violation, d)
         else (Inr user, d\<lparr>users := users d @ [user]\<rparr>))"

definition getAllUsers :: "db \<Rightarrow> UserPublic list" where
  "getAllUsers d = map toPublicUser (users d)"

text \<open>
  \<open>enrichTask\<close>: the creator is looked up and handed to \<open>toPublicUser\<close> as it is; when no
  row matched it is \<open>undefined\<close> and the rest pattern throws. The assignee is looked up
  only for a truthy \<open>assignedToId\<close>, and a missing row gives \<open>null\<close>.
\<close>

definition enrichTask :: "db \<Rightarrow> Task \<Rightarrow> thrown + TaskWithRelations" where
  "enrichTask d task =
     (let creator' = find (\<lambda>u. user_id u = creatorId task) (users d);
          assignedTo' =
            (case assignedToId task of
               None \<Rightarrow> None
             | Some a \<Rightarrow>
                 if a = [] then None
                 else (case find (\<lambda>u. user_id u = a) (users d) of
                         None \<Rightarrow> None
                       | Some assignee \<Rightarrow> Some (toPublicUser assignee)))
      in case creator' of
           None \<Rightarrow> Inl destructure_undefined
         | Some c \<Rightarrow>
             Inr (Task.extend task
                    (TaskWithRelations.fields (toPublicUser c) assignedTo')))"

definition getTask :: "db \<Rightarrow> string \<Rightarrow> thrown + TaskWithRelations option" where
  "getTask d i =
     (case find (\<lambda>t. task_id t = i) (tasks d) of
        None \<Rightarrow> Inr None
      | Some task \<Rightarrow>
          (case enrichTask d task of Inl e \<Rightarrow> Inl e | Inr t \<Rightarrow> Inr (Some t)))"

text \<open>\<open>Promise.all(rows.map(enrichTask))\<close>: all the results, or the first rejection.\<close>

fun enrich_all :: "db \<Rightarrow> Task list \<Rightarrow> thrown + TaskWithRelations list" where
  "enrich_all d [] = Inr []"
| "enrich_all d (t # ts) =
     (case enrichTask d t of
        Inl e \<Rightarrow> Inl e
      | Inr x \<Rightarrow> (case enrich_all d ts of Inl e \<Rightarrow> Inl e | Inr xs \<Rightarrow> Inr (x # xs)))"

text \<open>\<open>orderBy(desc(tasks.createdAt))\<close>; the order among equal timestamps is the store's.\<close>

definition getAllTasks :: "db \<Rightarrow> thrown + TaskWithRelations list" where
  "getAllTasks d = enrich_all d (rev (sort_key createdAt (tasks d)))"

text \<open>A reference that names no row of \<open>users\<close>.\<close>

definition dangling :: "db \<Rightarrow> string option \<Rightarrow> bool" where
  "dangling d r =
     (case r of None \<Rightarrow> False | Some a \<Rightarrow> find (\<lambda>u. user_id u = a) (users d) = None)"

text \<open>\<open>insertTask.dueDate ? new Date(insertTask.dueDate) : null\<close>, as the column takes it.\<close>

definition due_of :: "env \<Rightarrow> string field \<Rightarrow> thrown + timestamp option" where
  "due_of env f =
     (case f of
        Val s \<Rightarrow>
          if s = [] then Inr None
          else (case newDate env s of None \<Rightarrow> Inl invalid_time | Some t \<Rightarrow> Inr (Some t))
      | _ \<Rightarrow> Inr None)"

definition field_opt :: "'a field \<Rightarrow> 'a option" where
  "field_opt f = (case f of Val x \<Rightarrow> Some x | _ \<Rightarrow> None)"

definition createTask ::
    "env \<Rightarrow> db \<Rightarrow> InsertTask \<Rightarrow> string \<Rightarrow> (thrown + TaskWithRelations) \<times> db" where
  "createTask env d insertTask creatorId' =
     (case due_of env (ins_dueDate insertTask) of
        Inl e \<Rightarrow> (Inl e, d)
      | Inr due \<Rightarrow>
          (let task = \<lparr>task_id = randomUUID env,
                       title = ins_title insertTask,
                       description = field_opt (ins_description insertTask),
                       dueDate = due,
                       priority = (case ins_priority insertTask of None \<Rightarrow> Medium | Some p \<Rightarrow> p),
                       status = (case ins_status insertTask of None \<Rightarrow> Todo | Some s \<Rightarrow> s),
                       creatorId = creatorId',
                       assignedToId = field_opt (ins_assignedToId insertTask),
                       createdAt = now env,
                       updatedAt = now env\<rparr>
           in if list_ex (\<lambda>t. task_id t = task_id task) (tasks d)
              then (Inl unique_violation, d)
              else if dangling d (Some creatorId') \<or> dangling d (assignedToId task)
              then (Inl fk_violation, d)
              else (let d' = d\<lparr>tasks := tasks d @ [task]\<rparr> in (enrichTask d' task, d'))))"

text \<open>
  The \<open>updateData\<close> of \<open>updateTask\<close> applied to one row: a property the patch does not
  have leaves its column alone, \<open>updatedAt\<close> is always set, and \<open>dueDate\<close> is set when the
  patch's is not \<open>undefined\<close> (\<open>None\<close> here: left alone).
\<close>

definition due_patch :: "env \<Rightarrow> string field \<Rightarrow> thrown + timestamp option option" where
  "due_patch env f =
     (case f of
        Absent \<Rightarrow> Inr None
      | Null \<Rightarrow> Inr (Some None)
      | Val s \<Rightarrow>
          if s = [] then Inr (Some None)
          else (case newDate env s of None \<Rightarrow> Inl invalid_time | Some t \<Rightarrow> Inr (Some (Some t))))"

definition set_columns :: "timestamp \<Rightarrow> timestamp option option \<Rightarrow> UpdateTask \<Rightarrow> Task \<Rightarrow> Task" where
  "set_columns stamp due data t =
     t\<lparr>title := (case upd_title data of None \<Rightarrow> title t | Some x \<Rightarrow> x),
       description := (case upd_description data of
                         Absent \<Rightarrow> description t | Null \<Rightarrow> None | Val x \<Rightarrow> Some x),
       dueDate := (case due of None \<Rightarrow> dueDate t | Some x \<Rightarrow> x),
       priority := (case upd_priority data of None \<Rightarrow> priority t | Some x \<Rightarrow> x),
       status := (case upd_status data of None \<Rightarrow> status t | Some x \<Rightarrow> x),
       assignedToId := (case upd_assignedToId data of
                          Absent \<Rightarrow> assignedToId t | Null \<Rightarrow> None | Val x \<Rightarrow> Some x),
       updatedAt := stamp\<rparr>"

definition updateTask ::
    "env \<Rightarrow> db \<Rightarrow> string \<Rightarrow> UpdateTask \<Rightarrow> (thrown + TaskWithRelations option) \<times> db" where
  "updateTask env d i data =
     (case due_patch env (upd_dueDate data) of
        Inl e \<Rightarrow> (Inl e, d)
      | Inr due \<Rightarrow>
          (let upd = set_columns (now env) due data in
           if list_ex (\<lambda>t. task_id t = i \<and> assignedToId (upd t) \<noteq> assignedToId t
                            \<and> dangling d (assignedToId (upd t))) (tasks d)
           then (Inl fk_violation, d)
           else (let d' = d\<lparr>tasks := map (\<lambda>t. if task_id t = i then upd t else t) (tasks d)\<rparr>
                 in case find (\<lambda>t. task_id t = i) (tasks d') of
                      None \<Rightarrow> (Inr None, d')
                    | Some task \<Rightarrow>
                        (case enrichTask d' task of
                           Inl e \<Rightarrow> (Inl e, d')
                         | Inr t \<Rightarrow> (Inr (Some t), d')))))"

definition deleteTask :: "db \<Rightarrow> string \<Rightarrow> bool \<times> db" where
  "deleteTask d i =
     (let result = filter (\<lambda>t. task_id t = i) (tasks d)
      in (length result > 0, d\<lparr>tasks := filter (\<lambda>t. task_id t \<noteq> i) (tasks d)\<rparr>))"

section \<open>Request gateway (\<open>registerRoutes\<close>)\<close>

text \<open>An event is the pair given to \<open>io.emit(event, data)\<close>.\<close>

type_synonym event = "string \<times> js"

text \<open>What one request does: the response, the events emitted in order, the store after it.\<close>

record outcome =
  reply :: response
  emitted :: "event list"
  store :: db

definition respond :: "db \<Rightarrow> response \<Rightarrow> outcome" where
  "respond d r = \<lparr>reply = r, emitted = [], store = d\<rparr>"

definition COOKIE_NAME :: string where
  "COOKIE_NAME = ''taskflow_token''"

text \<open>\<open>authMiddleware\<close> on \<open>req.cookies?.[COOKIE_NAME]\<close>: a response, or the decoded \<open>req.user\<close>.\<close>

definition authMiddleware :: "env \<Rightarrow> string option \<Rightarrow> response + JWTPayload" where
  "authMiddleware env token =
     (case token of
        None \<Rightarrow> Inl (message_reply 401 ''Authentication required'')
      | Some t \<Rightarrow>
          if t = [] then Inl (message_reply 401 ''Authentication required'')
          else (case jwt_verify env t of
                  None \<Rightarrow> Inl (message_reply 401 ''Invalid or expired token'')
                | Some decoded \<Rightarrow> Inr decoded))"

definition protected :: "env \<Rightarrow> db \<Rightarrow> string option \<Rightarrow> (JWTPayload \<Rightarrow> outcome) \<Rightarrow> outcome" where
  "protected env d token handler =
     (case authMiddleware env token of
        Inl r \<Rightarrow> respond d r
      | Inr user \<Rightarrow> handler user)"

text \<open>The session cookie and the public user of a register or login that succeeded.\<close>

definition session_reply :: "env \<Rightarrow> nat \<Rightarrow> User \<Rightarrow> response" where
  "session_reply env st user =
     \<lparr>http_status = st,
      body = JObj [(''user'', JObj (rest_without ''password'' (user_row user)))],
      cookie = SetCookie (jwt_sign env \<lparr>userId = user_id user, jwt_email = email user\<rparr>)\<rparr>"

definition post_auth_register :: "env \<Rightarrow> db \<Rightarrow> js \<Rightarrow> outcome" where
  "post_auth_register env d reqBody =
     (case parseRegister env reqBody of
        Inl issues \<Rightarrow> respond d (handleError (ZodError issues) ''Registration failed'')
      | Inr data \<Rightarrow>
          if getUserByEmail d (reg_email data) \<noteq> None
          then respond d (message_reply 400 ''Email already in use'')
          else if getUserByUsername d (reg_username data) \<noteq> None
          then respond d (message_reply 400 ''Username already taken'')
          else (case createUser env d
                       \<lparr>iu_username = reg_username data,
                        iu_email = reg_email data,
                        iu_password = bcrypt_hash env (reg_password data),
                        iu_displayName = reg_displayName data\<rparr> of
                  (Inl e, d') \<Rightarrow> respond d' (handleError e ''Registration failed'')
                | (Inr user, d') \<Rightarrow> respond d' (session_reply env 201 user)))"

definition post_auth_login :: "env \<Rightarrow> db \<Rightarrow> js \<Rightarrow> outcome" where
  "post_auth_login env d reqBody =
     (case parseLogin env reqBody of
        Inl issues \<Rightarrow> respond d (handleError (ZodError issues) ''Login failed'')
      | Inr data \<Rightarrow>
          (case getUserByEmail d (login_email data) of
             None \<Rightarrow> respond d (message_reply 401 ''Invalid email or password'')
           | Some user \<Rightarrow>
               if \<not> bcrypt_compare env (login_password data) (password user)
               then respond d (message_reply 401 ''Invalid email or password'')
               else respond d (session_reply env 200 user)))"

definition post_auth_logout :: "db \<Rightarrow> outcome" where
  "post_auth_logout d =
     respond d ((message_reply 200 ''Logged out successfully'')\<lparr>cookie := ClearCookie\<rparr>)"

definition get_auth_me :: "db \<Rightarrow> JWTPayload \<Rightarrow> outcome" where
  "get_auth_me d reqUser =
     (case getUser d (userId reqUser) of
        None \<Rightarrow> respond d (message_reply 404 ''User not found'')
      | Some user \<Rightarrow>
          respond d (json_reply 200 (JObj [(''user'', JObj (rest_without ''password'' (user_row user)))])))"

definition get_users :: "db \<Rightarrow> outcome" where
  "get_users d = respond d (json_reply 200 (JArr (map JObj (getAllUsers d))))"

definition get_tasks :: "db \<Rightarrow> outcome" where
  "get_tasks d =
     (case getAllTasks d of
        Inl e \<Rightarrow> respond d (handleError e ''Failed to get tasks'')
      | Inr allTasks \<Rightarrow> respond d (json_reply 200 (JArr (map twr_js allTasks))))"

definition get_task :: "db \<Rightarrow> string \<Rightarrow> outcome" where
  "get_task d i =
     (case getTask d i of
        Inl e \<Rightarrow> respond d (handleError e ''Failed to get task'')
      | Inr None \<Rightarrow> respond d (message_reply 404 ''Task not found'')
      | Inr (Some task) \<Rightarrow> respond d (json_reply 200 (twr_js task)))"

definition post_tasks :: "env \<Rightarrow> db \<Rightarrow> JWTPayload \<Rightarrow> js \<Rightarrow> outcome" where
  "post_tasks env d reqUser reqBody =
     (case parseInsertTask env reqBody of
        Inl issues \<Rightarrow> respond d (handleError (ZodError issues) ''Failed to create task'')
      | Inr data \<Rightarrow>
          (case createTask env d data (userId reqUser) of
             (Inl e, d') \<Rightarrow> respond d' (handleError e ''Failed to create task'')
           | (Inr task, d') \<Rightarrow>
               \<lparr>reply = json_reply 201 (twr_js task),
                emitted = [(''task:created'',
                            JObj [(''taskId'', JStr (task_id task)), (''data'', twr_js task)])],
                store = d'\<rparr>))"

definition patch_task :: "env \<Rightarrow> db \<Rightarrow> string \<Rightarrow> js \<Rightarrow> outcome" where
  "patch_task env d i reqBody =
     (case getTask d i of
        Inl e \<Rightarrow> respond d (handleError e ''Failed to update task'')
      | Inr None \<Rightarrow> respond d (message_reply 404 ''Task not found'')
      | Inr (Some existingTask) \<Rightarrow>
          (case parseUpdateTask env reqBody of
             Inl issues \<Rightarrow> respond d (handleError (ZodError issues) ''Failed to update task'')
           | Inr data \<Rightarrow>
               (let previousAssignee = assignedToId existingTask in
                case updateTask env d i data of
                  (Inl e, d') \<Rightarrow> respond d' (handleError e ''Failed to update task'')
                | (Inr None, d') \<Rightarrow> respond d' (message_reply 404 ''Task not found'')
                | (Inr (Some task), d') \<Rightarrow>
                    \<lparr>reply = json_reply 200 (twr_js task),
                     emitted =
                       (''task:updated'',
                        JObj [(''taskId'', JStr (task_id task)), (''data'', twr_js task)])
                       # (case upd_assignedToId data of
                            Val a \<Rightarrow>
                              if a \<noteq> [] \<and> Some a \<noteq> previousAssignee
                              then [(''task:assigned'',
                                     JObj [(''taskId'', JStr (task_id task)),
                                           (''userId'', JStr a),
                                           (''data'', twr_js task)])]
                              else []
                          | _ \<Rightarrow> []),
                     store = d'\<rparr>)))"

definition delete_task :: "db \<Rightarrow> string \<Rightarrow> outcome" where
  "delete_task d i =
     (case getTask d i of
        Inl e \<Rightarrow> respond d (handleError e ''Failed to delete task'')
      | Inr None \<Rightarrow> respond d (message_reply 404 ''Task not found'')
      | Inr (Some existingTask) \<Rightarrow>
          (case deleteTask d i of
             (deleted, d') \<Rightarrow>
               if \<not> deleted then respond d' (message_reply 404 ''Task not found'')
               else \<lparr>reply = message_reply 200 ''Task deleted successfully'',
                     emitted = [(''task:deleted'', JObj [(''taskId'', JStr i)])],
                     store = d'\<rparr>))"

text \<open>The routes; the task and user routes run behind \<open>authMiddleware\<close>.\<close>

datatype request =
    Register js
  | Login js
  | Logout
  | Me
  | ListUsers
  | ListTasks
  | GetTask string
  | CreateTask js
  | PatchTask string js
  | DeleteTask string

fun route :: "env \<Rightarrow> db \<Rightarrow> string option \<Rightarrow> request \<Rightarrow> outcome" where
  "route env d token (Register b) = post_auth_register env d b"
| "route env d token (Login b) = post_auth_login env d b"
| "route env d token Logout = post_auth_logout d"
| "route env d token Me = protected env d token (get_auth_me d)"
| "route env d token ListUsers = protected env d token (\<lambda>_. get_users d)"
| "route env d token ListTasks = protected env d token (\<lambda>_. get_tasks d)"
| "route env d token (GetTask i) = protected env d token (\<lambda>_. get_task d i)"
| "route env d token (CreateTask b) = protected env d token (\<lambda>u. post_tasks env d u b)"
| "route env d token (PatchTask i b) = protected env d token (\<lambda>_. patch_task env d i b)"
| "route env d token (DeleteTask i) = protected env d token (\<lambda>_. delete_task d i)"

section \<open>Realtime channel: the handshake middleware\<close>

text \<open>
  \<open>String.prototype.split\<close> with a string separator: the pieces between the occurrences
  of the separator, found from the left; with the empty separator, the characters.
\<close>

fun pieces :: "string \<Rightarrow> string \<Rightarrow> string \<Rightarrow> string list" where
  "pieces sep cur [] = [rev cur]"
| "pieces sep cur (c # cs) =
     (if prefix sep (c # cs)
      then rev cur # pieces sep [] (drop (length sep - 1) cs)
      else pieces sep (c # cur) cs)"

definition js_split :: "string \<Rightarrow> string \<Rightarrow> string list" where
  "js_split s sep = (if sep = [] then map (\<lambda>c. [c]) s else pieces sep [] s)"

text \<open>\<open>headers.cookie?.split(COOKIE_NAME + "=")[1]?.split(";")[0]\<close>; \<open>None\<close> is \<open>undefined\<close>.\<close>

definition cookie_token :: "string option \<Rightarrow> string option" where
  "cookie_token header =
     (case header of
        None \<Rightarrow> None
      | Some h \<Rightarrow>
          (case js_split h (COOKIE_NAME @ ''='') of
             _ # p # _ \<Rightarrow> (case js_split p '';'' of [] \<Rightarrow> None | x # _ \<Rightarrow> Some x)
           | _ \<Rightarrow> None))"

text \<open>
  What the client controls in a handshake: \<open>handshake.auth.token\<close>, any value or missing,
  and the cookie header.
\<close>

record handshake =
  auth_token :: "js option"
  cookie_header :: "string option"

text \<open>\<open>a || b\<close> on the two sources of the token.\<close>

definition handshake_token :: "handshake \<Rightarrow> js option" where
  "handshake_token hs =
     (let fallback = map_option JStr (cookie_token (cookie_header hs)) in
      case auth_token hs of
        None \<Rightarrow> fallback
      | Some v \<Rightarrow> if truthy v then Some v else fallback)"

text \<open>\<open>jwt.verify\<close> throws on a token that is not a string.\<close>

definition verify_value :: "env \<Rightarrow> js \<Rightarrow> JWTPayload option" where
  "verify_value env v = (case v of JStr t \<Rightarrow> jwt_verify env t | _ \<Rightarrow> None)"

text \<open>
  The result of the middleware: the argument it gave to \<open>next\<close> (\<open>None\<close> for \<open>next()\<close>, which
  lets the connection through; an error would refuse it), the \<open>socket.user\<close> it set, and
  the values it handed to \<open>jwt.verify\<close>.
\<close>

record admission =
  next_error :: "thrown option"
  socket_user :: "JWTPayload option"
  verified :: "js list"

definition io_use :: "env \<Rightarrow> handshake \<Rightarrow> admission" where
  "io_use env hs =
     (case handshake_token hs of
        None \<Rightarrow> \<lparr>next_error = None, socket_user = None, verified = []\<rparr>
      | Some token \<Rightarrow>
          if truthy token
          then \<lparr>next_error = None, socket_user = verify_value env token, verified = [token]\<rparr>
          else \<lparr>next_error = None, socket_user = None, verified = []\<rparr>)"

text \<open>
  \<open>io.on("connection")\<close> registers a \<open>disconnect\<close> listener and nothing else; \<open>io.emit\<close>
  sends an event to every connected socket, whatever its \<open>socket.user\<close>.
\<close>

definition io_emit :: "'s list \<Rightarrow> event \<Rightarrow> ('s \<times> event) list" where
  "io_emit sockets ev = map (\<lambda>sock. (sock, ev)) sockets"

section \<open>Calendar keys (\<open>tasksByDate\<close>)\<close>

text \<open>
  The civil date of a day number counted from 1970-01-01 in the proleptic Gregorian
  calendar, which is what \<open>getFullYear\<close>, \<open>getMonth\<close> and \<open>getDate\<close> compute, and its
  inverse.
\<close>

definition civil_from_days :: "int \<Rightarrow> int \<times> int \<times> int" where
  "civil_from_days z =
     (let z' = z + 719468;
          era = z' div 146097;
          doe = z' mod 146097;
          yoe = (doe - doe div 1460 + doe div 36524 - doe div 146096) div 365;
          doy = doe - (365 * yoe + yoe div 4 - yoe div 100);
          mp = (5 * doy + 2) div 153;
          d = doy - (153 * mp + 2) div 5 + 1;
          m = (if mp < 10 then mp + 3 else mp - 9);
          y = yoe + era * 400 + (if m \<le> 2 then 1 else 0)
      in (y, m, d))"

definition days_from_civil :: "int \<Rightarrow> int \<Rightarrow> int \<Rightarrow> int" where
  "days_from_civil y m d =
     (let y' = (if m \<le> 2 then y - 1 else y);
          era = y' div 400;
          yoe = y' mod 400;
          mp = (m + 9) mod 12;
          doy = (153 * mp + 2) div 5 + d - 1;
          doe = yoe * 365 + yoe div 4 - yoe div 100 + doy
      in era * 146097 + doe - 719468)"

definition msPerDay :: int where
  "msPerDay = 86400000"

definition digit :: "int \<Rightarrow> char" where
  "digit n = char_of (48 + n mod 10)"

definition digit_value :: "char \<Rightarrow> int option" where
  "digit_value c =
     (let n = (of_char c :: int) in if 48 \<le> n \<and> n \<le> 57 then Some (n - 48) else None)"

text \<open>
  The \<open>Date\<close> constructor on the date-only form \<open>YYYY-MM-DD\<close> of a calendar date: midnight
  UTC of that day. Other strings are outside this function (\<open>None\<close>).
\<close>

definition date_only :: "string \<Rightarrow> timestamp option" where
  "date_only s =
     (case map digit_value s of
        [Some a, Some b, Some c, Some e, None, Some f, Some g, None, Some h, Some i] \<Rightarrow>
          (let y = 1000 * a + 100 * b + 10 * c + e; m = 10 * f + g; d = 10 * h + i in
           if s ! 4 = CHR ''-'' \<and> s ! 7 = CHR ''-''
              \<and> civil_from_days (days_from_civil y m d) = (y, m, d)
           then Some (days_from_civil y m d * msPerDay)
           else None)
      | _ \<Rightarrow> None)"

text \<open>
  \<open>format(date, "yyyy-MM-dd")\<close> of date-fns, which reads the date in the local time zone
  of the client; \<open>tz\<close> is the zone's offset from UTC in minutes (local minus UTC) at that
  instant. Years 0 to 9999.
\<close>

definition format_yyyy_MM_dd :: "int \<Rightarrow> timestamp \<Rightarrow> string" where
  "format_yyyy_MM_dd tz t =
     (case civil_from_days ((t + tz * 60000) div msPerDay) of
        (y, m, d) \<Rightarrow>
          [digit (y div 1000), digit (y div 100), digit (y div 10), digit y, CHR ''-'',
           digit (m div 10), digit m, CHR ''-'',
           digit (d div 10), digit d])"

text \<open>
  The key \<open>tasksByDate\<close> files a fetched task under. The due date reaches the client as
  the ISO string of the stored instant, and \<open>new Date\<close> of it is that instant again.
\<close>

definition dateKey :: "int \<Rightarrow> 'a Task_scheme \<Rightarrow> string option" where
  "dateKey tz task = map_option (format_yyyy_MM_dd tz) (dueDate task)"

section \<open>Sample inputs\<close>

text \<open>
  One concrete choice of the collaborators and a small store, on which the theorems
  below are instantiated. The sample schemas read a body of one fixed shape each.
\<close>

definition no_patch :: UpdateTask where
  "no_patch = \<lparr>upd_title = None, upd_description = Absent, upd_dueDate = Absent,
               upd_priority = None, upd_status = None, upd_assignedToId = Absent\<rparr>"

definition sample_parseUpdateTask :: "js \<Rightarrow> string list + UpdateTask" where
  "sample_parseUpdateTask b =
     (case b of
        JObj [(k, v)] \<Rightarrow>
          if k = ''assignedToId'' then
            (case v of
               JStr a \<Rightarrow> Inr (no_patch\<lparr>upd_assignedToId := Val a\<rparr>)
             | JNull \<Rightarrow> Inr (no_patch\<lparr>upd_assignedToId := Null\<rparr>)
             | _ \<Rightarrow> Inl [''Expected string, received number''])
          else if k = ''dueDate'' then
            (case v of
               JStr a \<Rightarrow> Inr (no_patch\<lparr>upd_dueDate := Val a\<rparr>)
             | JNull \<Rightarrow> Inr (no_patch\<lparr>upd_dueDate := Null\<rparr>)
             | _ \<Rightarrow> Inl [''Expected string, received number''])
          else if k = ''status'' \<and> v = JStr ''completed''
          then Inr (no_patch\<lparr>upd_status := Some Completed\<rparr>)
          else Inl [''Invalid enum value'']
      | JObj [] \<Rightarrow> Inr no_patch
      | _ \<Rightarrow> Inl [''Expected object, received string''])"

definition sample_env :: env where
  "sample_env =
     \<lparr>parseRegister = (\<lambda>b. case b of
          JObj [(_, JStr u), (_, JStr e), (_, JStr p)] \<Rightarrow>
            if length p < 6 then Inl [''Password must be at least 6 characters'']
            else Inr \<lparr>reg_username = u, reg_email = e, reg_password = p, reg_displayName = None\<rparr>
        | _ \<Rightarrow> Inl [''Required'']),
      parseLogin = (\<lambda>b. case b of
          JObj [(_, JStr e), (_, JStr p)] \<Rightarrow> Inr \<lparr>login_email = e, login_password = p\<rparr>
        | _ \<Rightarrow> Inl [''Invalid email address'']),
      parseInsertTask = (\<lambda>b. case b of
          JObj [(_, JStr t), (_, JStr due)] \<Rightarrow>
            Inr \<lparr>ins_title = t, ins_description = Absent, ins_dueDate = Val due,
                 ins_priority = None, ins_status = None, ins_assignedToId = Absent\<rparr>
        | _ \<Rightarrow> Inl [''Title is required'']),
      parseUpdateTask = sample_parseUpdateTask,
      bcrypt_hash = (\<lambda>p. ''hash:'' @ p),
      bcrypt_compare = (\<lambda>p h. h = ''hash:'' @ p),
      jwt_sign = (\<lambda>p. userId p @ '':'' @ jwt_email p),
      jwt_verify = (\<lambda>t. if t = ''u1:ann@example.org''
                          then Some \<lparr>userId = ''u1'', jwt_email = ''ann@example.org''\<rparr>
                          else if t = ''u9:zed@example.org''
                          then Some \<lparr>userId = ''u9'', jwt_email = ''zed@example.org''\<rparr>
                          else None),
      randomUUID = ''t2'',
      now = 2000,
      newDate = date_only\<rparr>"

definition ann :: User where
  "ann = \<lparr>user_id = ''u1'', username = ''ann'', email = ''ann@example.org'',
          password = ''hash:secret1'', displayName = Some ''Ann'', user_createdAt = 10\<rparr>"

definition bob :: User where
  "bob = \<lparr>user_id = ''u2'', username = ''bob'', email = ''bob@example.org'',
          password = ''hash:secret2'', displayName = None, user_createdAt = 20\<rparr>"

definition task1 :: Task where
  "task1 = \<lparr>task_id = ''t1'', title = ''Write report'', description = None,
            dueDate = Some 500, priority = High, status = Todo, creatorId = ''u1'',
            assignedToId = None, createdAt = 1000, updatedAt = 1000\<rparr>"

definition sample_db :: db where
  "sample_db = \<lparr>users = [ann, bob], tasks = [task1]\<rparr>"

section \<open>Store invariants and runs of the gateway\<close>

text \<open>Every user id is a non-empty string, as the ids \<open>randomUUID()\<close> makes are.\<close>

definition ids_ok :: "db \<Rightarrow> bool" where
  "ids_ok d = list_all (\<lambda>u. user_id u \<noteq> []) (users d)"

text \<open>No task was updated before it was created.\<close>

definition stamps_ok :: "db \<Rightarrow> bool" where
  "stamps_ok d = list_all (\<lambda>t. createdAt t \<le> updatedAt t) (tasks d)"

text \<open>The clock of a request is not behind any timestamp the store already holds.\<close>

definition clock_ok :: "env \<Rightarrow> db \<Rightarrow> bool" where
  "clock_ok env d = list_all (\<lambda>t. updatedAt t \<le> now env) (tasks d)"

text \<open>A sequence of requests, each with its cookie and what the collaborators return.\<close>

type_synonym step = "env \<times> string option \<times> request"

fun run :: "db \<Rightarrow> step list \<Rightarrow> db" where
  "run d [] = d"
| "run d ((env, token, r) # rest) = run (store (route env d token r)) rest"

fun clocks_ok :: "db \<Rightarrow> step list \<Rightarrow> bool" where
  "clocks_ok d [] = True"
| "clocks_ok d ((env, token, r) # rest) =
     (clock_ok env d \<and> clocks_ok (store (route env d token r)) rest)"

definition no_password :: "js \<Rightarrow> bool" where
  "no_password v = (\<not> has_field ''password'' v)"

text \<open>Neither the response body nor any emitted payload has a \<open>password\<close> property.\<close>

definition clean :: "outcome \<Rightarrow> bool" where
  "clean out = (no_password (body (reply out)) \<and> list_all (\<lambda>ev. no_password (snd ev)) (emitted out))"

section \<open>Basic facts\<close>

lemma truncate_extend [simp]: "Task.truncate (Task.extend t m) = (t::Task)"
  by (cases t) (simp add: Task.extend_def Task.truncate_def)

lemma extend_fields [simp]:
  "task_id (Task.extend t m) = task_id t"
  "title (Task.extend t m) = title t"
  "description (Task.extend t m) = description t"
  "dueDate (Task.extend t m) = dueDate t"
  "priority (Task.extend t m) = priority t"
  "status (Task.extend t m) = status t"
  "creatorId (Task.extend t m) = creatorId t"
  "assignedToId (Task.extend t m) = assignedToId t"
  "createdAt (Task.extend t m) = createdAt t"
  "updatedAt (Task.extend t m) = updatedAt t"
  by (simp_all add: Task.extend_def)

lemma extend_more [simp]:
  "creator (Task.extend t (TaskWithRelations.fields c a)) = c"
  "assignedTo (Task.extend t (TaskWithRelations.fields c a)) = a"
  by (simp_all add: Task.extend_def TaskWithRelations.fields_def)

lemma task_row_extend [simp]: "task_row (Task.extend t m) = task_row t"
  by (simp add: task_row_def)

lemma truncate_fields:
  "Task.truncate t = task \<Longrightarrow>
     task_id t = task_id task \<and> title t = title task \<and> description t = description task
     \<and> dueDate t = dueDate task \<and> priority t = priority task \<and> status t = status task
     \<and> creatorId t = creatorId task \<and> assignedToId t = assignedToId task
     \<and> createdAt t = createdAt task \<and> updatedAt t = updatedAt task"
  by (cases t) (auto simp: Task.truncate_def)

lemma enrichTask_Inr:
  "enrichTask d task = Inr t \<Longrightarrow>
     Task.truncate t = task
     \<and> (\<exists>c. getUser d (creatorId task) = Some c \<and> creator t = toPublicUser c)
     \<and> (assignedTo t = None \<or> (\<exists>a u. assignedToId task = Some a \<and> getUser d a = Some u
                                    \<and> assignedTo t = Some (toPublicUser u)))"
  by (auto simp: enrichTask_def getUser_def Let_def split: option.splits if_splits)

lemma enrichTask_Inl:
  "enrichTask d task = Inl e \<Longrightarrow> e = destructure_undefined \<and> getUser d (creatorId task) = None"
  by (auto simp: enrichTask_def getUser_def Let_def split: option.splits if_splits)

section \<open>Error handling\<close>

text \<open>
  What \<open>handleError\<close> answers, and where the routes of this model reach it. A \<open>ZodError\<close>
  gets 400 and the first issue's message (\<open>Validation error\<close> when there is no issue or
  its message is empty); any other \<open>Error\<close> gets 400 and the error's own message; only a
  thrown value that is not an \<open>Error\<close> gets 500 and the default message. The routes that
  parse a body answer a failed parse this way, and \<open>createUser\<close>, \<open>getAllTasks\<close>,
  \<open>getTask\<close>, \<open>createTask\<close> and \<open>updateTask\<close>, the calls that can throw here, hand what
  they throw to \<open>handleError\<close> with the default message of their route. (The reads of
  this store, bcrypt, jsonwebtoken and the delete statement do not throw here, so the
  \<open>catch\<close> of login, me, users and of the delete call has nothing to catch.)
\<close>

lemma handleError_in_routes:
  "handleError (ZodError []) dm = message_reply 400 ''Validation error''
   \<and> handleError (ZodError (m # ms)) dm
       = message_reply 400 (if m = [] then ''Validation error'' else m)
   \<and> handleError (Error m) dm = message_reply 400 m
   \<and> handleError (NonError v) dm = message_reply 500 dm
   \<and> (parseRegister env b = Inl issues
        \<longrightarrow> reply (route env d tok (Register b)) = message_reply 400 (first_issue_message issues))
   \<and> (parseLogin env b = Inl issues
        \<longrightarrow> reply (route env d tok (Login b)) = message_reply 400 (first_issue_message issues))
   \<and> (\<forall>u. authMiddleware env tok = Inr u \<and> parseInsertTask env b = Inl issues
        \<longrightarrow> reply (route env d tok (CreateTask b))
            = message_reply 400 (first_issue_message issues))
   \<and> (\<forall>u prev. authMiddleware env tok = Inr u \<and> getTask d i = Inr (Some prev)
          \<and> parseUpdateTask env b = Inl issues
        \<longrightarrow> reply (route env d tok (PatchTask i b))
            = message_reply 400 (first_issue_message issues))
   \<and> (\<forall>u e. authMiddleware env tok = Inr u \<and> getAllTasks d = Inl e
        \<longrightarrow> reply (route env d tok ListTasks) = handleError e ''Failed to get tasks'')
   \<and> (\<forall>u e. authMiddleware env tok = Inr u \<and> getTask d i = Inl e
        \<longrightarrow> reply (route env d tok (GetTask i)) = handleError e ''Failed to get task''
          \<and> reply (route env d tok (PatchTask i b)) = handleError e ''Failed to update task''
          \<and> reply (route env d tok (DeleteTask i)) = handleError e ''Failed to delete task'')
   \<and> (\<forall>u data e d'. authMiddleware env tok = Inr u \<and> parseInsertTask env b = Inr data
          \<and> createTask env d data (userId u) = (Inl e, d')
        \<longrightarrow> reply (route env d tok (CreateTask b)) = handleError e ''Failed to create task'')
   \<and> (\<forall>u prev data e d'. authMiddleware env tok = Inr u \<and> getTask d i = Inr (Some prev)
          \<and> parseUpdateTask env b = Inr data \<and> updateTask env d i data = (Inl e, d')
        \<longrightarrow> reply (route env d tok (PatchTask i b)) = handleError e ''Failed to update task'')
   \<and> (\<forall>data e d'. parseRegister env b = Inr data
          \<and> getUserByEmail d (reg_email data) = None
          \<and> getUserByUsername d (reg_username data) = None
          \<and> createUser env d
                \<lparr>iu_username = reg_username data, iu_email = reg_email data,
                 iu_password = bcrypt_hash env (reg_password data),
                 iu_displayName = reg_displayName data\<rparr> = (Inl e, d')
        \<longrightarrow> reply (route env d tok (Register b)) = handleError e ''Registration failed'')"
proof -
  have h: "handleError (ZodError []) dm = message_reply 400 ''Validation error''
   \<and> handleError (ZodError (m # ms)) dm
       = message_reply 400 (if m = [] then ''Validation error'' else m)
   \<and> handleError (Error m) dm = message_reply 400 m
   \<and> handleError (NonError v) dm = message_reply 500 dm"
    by (simp add: first_issue_message_def)
  have reg: "parseRegister env b = Inl issues
        \<longrightarrow> reply (route env d tok (Register b)) = message_reply 400 (first_issue_message issues)"
    by (simp add: post_auth_register_def respond_def)
  have login: "parseLogin env b = Inl issues
        \<longrightarrow> reply (route env d tok (Login b)) = message_reply 400 (first_issue_message issues)"
    by (simp add: post_auth_login_def respond_def)
  have create: "\<forall>u. authMiddleware env tok = Inr u \<and> parseInsertTask env b = Inl issues
        \<longrightarrow> reply (route env d tok (CreateTask b))
            = message_reply 400 (first_issue_message issues)"
    by (simp add: protected_def post_tasks_def respond_def)
  have patch: "\<forall>u prev. authMiddleware env tok = Inr u \<and> getTask d i = Inr (Some prev)
          \<and> parseUpdateTask env b = Inl issues
        \<longrightarrow> reply (route env d tok (PatchTask i b))
            = message_reply 400 (first_issue_message issues)"
    by (simp add: protected_def patch_task_def respond_def)
  have list: "\<forall>u e. authMiddleware env tok = Inr u \<and> getAllTasks d = Inl e
        \<longrightarrow> reply (route env d tok ListTasks) = handleError e ''Failed to get tasks''"
    by (simp add: protected_def get_tasks_def respond_def)
  have fetch: "\<forall>u e. authMiddleware env tok = Inr u \<and> getTask d i = Inl e
        \<longrightarrow> reply (route env d tok (GetTask i)) = handleError e ''Failed to get task''
          \<and> reply (route env d tok (PatchTask i b)) = handleError e ''Failed to update task''
          \<and> reply (route env d tok (DeleteTask i)) = handleError e ''Failed to delete task''"
    by (simp add: protected_def get_task_def patch_task_def delete_task_def respond_def)
  have ins: "\<forall>u data e d'. authMiddleware env tok = Inr u \<and> parseInsertTask env b = Inr data
          \<and> createTask env d data (userId u) = (Inl e, d')
        \<longrightarrow> reply (route env d tok (CreateTask b)) = handleError e ''Failed to create task''"
    by (simp add: protected_def post_tasks_def respond_def)
  have upd: "\<forall>u prev data e d'. authMiddleware env tok = Inr u \<and> getTask d i = Inr (Some prev)
          \<and> parseUpdateTask env b = Inr data \<and> updateTask env d i data = (Inl e, d')
        \<longrightarrow> reply (route env d tok (PatchTask i b)) = handleError e ''Failed to update task''"
    by (simp add: protected_def patch_task_def respond_def)
  have user: "\<forall>data e d'. parseRegister env b = Inr data
          \<and> getUserByEmail d (reg_email data) = None
          \<and> getUserByUsername d (reg_username data) = None
          \<and> createUser env d
                \<lparr>iu_username = reg_username data, iu_email = reg_email data,
                 iu_password = bcrypt_hash env (reg_password data),
                 iu_displayName = reg_displayName data\<rparr> = (Inl e, d')
        \<longrightarrow> reply (route env d tok (Register b)) = handleError e ''Registration failed''"
    by (simp add: post_auth_register_def respond_def)
  from h reg login create patch list fetch ins upd user show ?thesis by (intro conjI; blast)
qed

lemma handleError_in_routes_example:
  "parseRegister sample_env
      (JObj [(''username'', JStr ''cat''), (''email'', JStr ''cat@example.org''),
             (''password'', JStr ''abc'')])
     = Inl [''Password must be at least 6 characters'']
   \<and> reply (route sample_env sample_db None
        (Register (JObj [(''username'', JStr ''cat''), (''email'', JStr ''cat@example.org''),
                         (''password'', JStr ''abc'')])))
     = message_reply 400 ''Password must be at least 6 characters''"
proof -
  let ?b = "JObj [(''username'', JStr ''cat''), (''email'', JStr ''cat@example.org''),
                  (''password'', JStr ''abc'')]"
  have p: "parseRegister sample_env ?b = Inl [''Password must be at least 6 characters'']"
    by (simp add: sample_env_def)
  note inst = handleError_in_routes [where env = sample_env and b = ?b and d = sample_db
      and issues = "[''Password must be at least 6 characters'']" and tok = None]
  from inst p
  have "reply (route sample_env sample_db None (Register ?b))
          = message_reply 400 (first_issue_message [''Password must be at least 6 characters''])"
    by blast
  with p show ?thesis by (simp add: first_issue_message_def)
qed

text \<open>
  C4. The claim: an unexpected internal error is answered 500 with the route's default
  message and never with the error's own. The code passes a default message from
  every route and has the 500 answer for it, but tests \<open>error instanceof Error\<close> first,
  so no \<open>Error\<close> reaches it. A task creation whose session names a user the store does
  not have breaks the foreign key inside the store, and the caller gets 400 with the
  store's own message rather than 500 with \<open>Failed to create task\<close>; likewise any
  \<open>Error\<close> given to \<open>handleError\<close>, such as a refused connection during a login.
\<close>

theorem internal_error_leaks:
  "reply (route sample_env sample_db (Some ''u9:zed@example.org'')
            (CreateTask (JObj [(''title'', JStr ''Plan''), (''dueDate'', JStr ''2025-03-01'')])))
     = message_reply 400 ''insert or update on table tasks violates foreign key constraint''
   \<and> handleError (Error ''connect ECONNREFUSED'') ''Login failed''
     = message_reply 400 ''connect ECONNREFUSED''
   \<and> message_reply 400 ''connect ECONNREFUSED'' \<noteq> message_reply 500 ''Login failed''"
  by code_simp

section \<open>Login failures\<close>

text \<open>
  C3. Two runs of the login route, one with an email no user has and one with a known
  email and a password that does not match the stored hash, give the same response
  (status 401, the same message, no cookie), emit nothing and leave the store alone.
\<close>

theorem login_failures_indistinguishable:
  assumes "parseLogin env1 b1 = Inr data1"
    and "getUserByEmail d1 (login_email data1) = None"
    and "parseLogin env2 b2 = Inr data2"
    and "getUserByEmail d2 (login_email data2) = Some user"
    and "\<not> bcrypt_compare env2 (login_password data2) (password user)"
  shows "reply (route env1 d1 tok1 (Login b1)) = reply (route env2 d2 tok2 (Login b2))
       \<and> reply (route env1 d1 tok1 (Login b1)) = message_reply 401 ''Invalid email or password''
       \<and> emitted (route env1 d1 tok1 (Login b1)) = []
       \<and> emitted (route env2 d2 tok2 (Login b2)) = []
       \<and> store (route env1 d1 tok1 (Login b1)) = d1
       \<and> store (route env2 d2 tok2 (Login b2)) = d2"
  using assms by (simp add: post_auth_login_def respond_def)

theorem login_failures_indistinguishable_witness:
  "reply (route sample_env sample_db None
            (Login (JObj [(''email'', JStr ''nobody@example.org''), (''password'', JStr ''secret1'')])))
   = reply (route sample_env sample_db None
            (Login (JObj [(''email'', JStr ''ann@example.org''), (''password'', JStr ''wrong'')])))
   \<and> getUserByEmail sample_db ''nobody@example.org'' = None
   \<and> getUserByEmail sample_db ''ann@example.org'' = Some ann
   \<and> \<not> bcrypt_compare sample_env ''wrong'' (password ann)"
proof -
  let ?unknown = "\<lparr>login_email = ''nobody@example.org'', login_password = ''secret1''\<rparr>"
  let ?wrong = "\<lparr>login_email = ''ann@example.org'', login_password = ''wrong''\<rparr>"
  have 1: "parseLogin sample_env
             (JObj [(''email'', JStr ''nobody@example.org''), (''password'', JStr ''secret1'')])
           = Inr ?unknown"
    by (simp add: sample_env_def)
  have 2: "getUserByEmail sample_db (login_email ?unknown) = None"
    by (simp add: getUserByEmail_def sample_db_def ann_def bob_def)
  have 3: "parseLogin sample_env
             (JObj [(''email'', JStr ''ann@example.org''), (''password'', JStr ''wrong'')])
           = Inr ?wrong"
    by (simp add: sample_env_def)
  have 4: "getUserByEmail sample_db (login_email ?wrong) = Some ann"
    by (simp add: getUserByEmail_def sample_db_def ann_def bob_def)
  have 5: "\<not> bcrypt_compare sample_env (login_password ?wrong) (password ann)"
    by (simp add: sample_env_def ann_def)
  from login_failures_indistinguishable [OF 1 2 3 4 5, of None None] 2 4 5
  show ?thesis by simp
qed

section \<open>The handshake\<close>

text \<open>
  C8. The handshake middleware calls \<open>next()\<close> without an error for every handshake and
  every behaviour of \<open>jwt.verify\<close>, so no connection is refused. With no token, or with a
  token \<open>jwt.verify\<close> rejects (malformed, not a string, bad signature, expired), the
  socket gets no user; a user is set only from the token presented in the handshake;
  and \<open>jwt.verify\<close> is called at most once.
\<close>

theorem handshake_always_admitted:
  "next_error (io_use env hs) = None
   \<and> length (verified (io_use env hs)) \<le> 1
   \<and> (auth_token hs = None \<and> cookie_header hs = None \<longrightarrow> socket_user (io_use env hs) = None)
   \<and> (\<forall>v. handshake_token hs = Some v \<and> verify_value env v = None
          \<longrightarrow> socket_user (io_use env hs) = None)
   \<and> (\<forall>p. socket_user (io_use env hs) = Some p
          \<longrightarrow> (\<exists>t. handshake_token hs = Some (JStr t) \<and> jwt_verify env t = Some p))"
  by (auto simp: io_use_def handshake_token_def cookie_token_def verify_value_def
           split: option.splits js.splits if_splits)

theorem handshake_always_admitted_witness:
  "next_error (io_use sample_env \<lparr>auth_token = Some (JStr ''forged''), cookie_header = None\<rparr>) = None
   \<and> socket_user (io_use sample_env \<lparr>auth_token = Some (JStr ''forged''), cookie_header = None\<rparr>) = None
   \<and> handshake_token \<lparr>auth_token = Some (JStr ''forged''), cookie_header = None\<rparr>
       = Some (JStr ''forged'')
   \<and> verify_value sample_env (JStr ''forged'') = None
   \<and> next_error (io_use sample_env \<lparr>auth_token = None, cookie_header = None\<rparr>) = None
   \<and> socket_user (io_use sample_env \<lparr>auth_token = None, cookie_header = None\<rparr>) = None"
proof -
  let ?forged = "\<lparr>auth_token = Some (JStr ''forged''), cookie_header = None\<rparr>"
  let ?anonymous = "\<lparr>auth_token = None, cookie_header = (None :: string option)\<rparr>"
  have t: "handshake_token ?forged = Some (JStr ''forged'')"
    by (simp add: handshake_token_def)
  have v: "verify_value sample_env (JStr ''forged'') = None"
    by (simp add: verify_value_def sample_env_def)
  from handshake_always_admitted [of sample_env ?forged]
       handshake_always_admitted [of sample_env ?anonymous] t v
  show ?thesis by simp
qed

section \<open>Due dates and calendar keys\<close>

text \<open>
  Midnight UTC of 2025-03-01 is filed under that date in every zone at or east of UTC,
  and under the day before in every zone west of it.
\<close>

lemma format_day:
  "format_yyyy_MM_dd tz t = format_yyyy_MM_dd 0 (((t + tz * 60000) div msPerDay) * msPerDay)"
  by (simp add: format_yyyy_MM_dd_def msPerDay_def)

lemma dateKey_east_of_utc:
  assumes "dueDate task = Some 1740787200000" and "0 \<le> tz" and "tz < 1440"
  shows "dateKey tz task = Some ''2025-03-01''"
proof -
  from assms(2,3) have "(1740787200000 + tz * 60000) div msPerDay = 20148"
    by (simp add: msPerDay_def)
  then have "format_yyyy_MM_dd tz 1740787200000 = format_yyyy_MM_dd 0 (20148 * msPerDay)"
    by (simp add: format_day [of tz])
  also have "\<dots> = ''2025-03-01''" by code_simp
  finally show ?thesis using assms(1) by (simp add: dateKey_def)
qed

lemma dateKey_west_of_utc:
  assumes "dueDate task = Some 1740787200000" and "- 1440 \<le> tz" and "tz < 0"
  shows "dateKey tz task = Some ''2025-02-28''"
proof -
  from assms(2,3) have "(1740787200000 + tz * 60000) div msPerDay = 20147"
    by (simp add: msPerDay_def)
  then have "format_yyyy_MM_dd tz 1740787200000 = format_yyyy_MM_dd 0 (20147 * msPerDay)"
    by (simp add: format_day [of tz])
  also have "\<dots> = ''2025-02-28''" by code_simp
  finally show ?thesis using assms(1) by (simp add: dateKey_def)
qed

text \<open>
  C9 at a client five hours west of UTC. The task created with the due date
  \<open>2025-03-01\<close> stores midnight UTC of that day; fetched and formatted in the client's
  zone it is filed under \<open>2025-02-28\<close>. A client on UTC gets \<open>2025-03-01\<close>.
\<close>

theorem date_key_off_by_one_west_of_utc:
  "(case createTask sample_env sample_db
           \<lparr>ins_title = ''Plan'', ins_description = Absent, ins_dueDate = Val ''2025-03-01'',
            ins_priority = None, ins_status = None, ins_assignedToId = Absent\<rparr> ''u1'' of
      (Inr created, d') \<Rightarrow>
        (case getTask d' (task_id created) of
           Inr (Some fetched) \<Rightarrow>
             dueDate fetched = Some 1740787200000
             \<and> dateKey (- 300) fetched = Some ''2025-02-28''
             \<and> dateKey 0 fetched = Some ''2025-03-01''
         | _ \<Rightarrow> False)
    | _ \<Rightarrow> False)"
  by code_simp

section \<open>Facts about the storage operations\<close>

lemma set_columns_id [simp]:
  "task_id (set_columns stamp due data t) = task_id t"
  "creatorId (set_columns stamp due data t) = creatorId t"
  "createdAt (set_columns stamp due data t) = createdAt t"
  "updatedAt (set_columns stamp due data t) = stamp"
  by (simp_all add: set_columns_def)

lemma find_updated:
  "find (\<lambda>t. task_id t = i) (map (\<lambda>t. if task_id t = i then set_columns s due data t else t) xs)
     = map_option (set_columns s due data) (find (\<lambda>t. task_id t = i) xs)"
  by (induction xs) auto

lemma getTask_Some:
  "getTask d i = Inr (Some t) \<Longrightarrow>
     \<exists>task. find (\<lambda>t. task_id t = i) (tasks d) = Some task \<and> enrichTask d task = Inr t"
  by (auto simp: getTask_def split: option.splits sum.splits)

lemma getTask_None:
  "(getTask d i = Inr None) = (find (\<lambda>t. task_id t = i) (tasks d) = None)"
  by (auto simp: getTask_def split: option.splits sum.splits)

lemma updateTask_Some:
  assumes "updateTask env d i data = (Inr (Some t'), d')"
  shows "\<exists>due old.
           due_patch env (upd_dueDate data) = Inr due
           \<and> find (\<lambda>t. task_id t = i) (tasks d) = Some old
           \<and> d' = d\<lparr>tasks := map (\<lambda>t. if task_id t = i then set_columns (now env) due data t else t)
                                (tasks d)\<rparr>
           \<and> enrichTask d' (set_columns (now env) due data old) = Inr t'
           \<and> \<not> (assignedToId (set_columns (now env) due data old) \<noteq> assignedToId old
                 \<and> dangling d (assignedToId (set_columns (now env) due data old)))"
proof -
  from assms obtain due where due: "due_patch env (upd_dueDate data) = Inr due"
    by (cases "due_patch env (upd_dueDate data)") (auto simp: updateTask_def)
  let ?upd = "set_columns (now env) due data"
  let ?d' = "d\<lparr>tasks := map (\<lambda>t. if task_id t = i then ?upd t else t) (tasks d)\<rparr>"
  let ?bad = "list_ex (\<lambda>t. task_id t = i \<and> assignedToId (?upd t) \<noteq> assignedToId t
                            \<and> dangling d (assignedToId (?upd t))) (tasks d)"
  from assms due have nobad: "\<not> ?bad"
    by (auto simp: updateTask_def Let_def split: if_splits)
  with assms due have run:
    "(case find (\<lambda>t. task_id t = i) (tasks ?d') of
        None \<Rightarrow> (Inr None, ?d')
      | Some task \<Rightarrow> (case enrichTask ?d' task of Inl e \<Rightarrow> (Inl e, ?d') | Inr t \<Rightarrow> (Inr (Some t), ?d')))
     = (Inr (Some t'), d')"
    by (simp add: updateTask_def Let_def)
  then obtain task where task: "find (\<lambda>t. task_id t = i) (tasks ?d') = Some task"
    by (cases "find (\<lambda>t. task_id t = i) (tasks ?d')") auto
  then obtain old where old: "find (\<lambda>t. task_id t = i) (tasks d) = Some old" and t: "task = ?upd old"
    by (auto simp: find_updated)
  from run task have enr: "enrichTask ?d' task = Inr t'" and d': "d' = ?d'"
    by (auto split: sum.splits)
  from old have "old \<in> set (tasks d)" "task_id old = i"
    by (auto simp: find_Some_iff)
  with nobad have "\<not> (assignedToId (?upd old) \<noteq> assignedToId old \<and> dangling d (assignedToId (?upd old)))"
    by (auto simp: list_ex_iff)
  with due old d' enr t show ?thesis by auto
qed


lemma updateTask_row:
  assumes "updateTask env d i data = (Inr (Some t'), d')"
    and "find (\<lambda>t. task_id t = i) (tasks d) = Some old"
  shows "\<exists>due. due_patch env (upd_dueDate data) = Inr due
           \<and> Task.truncate t' = set_columns (now env) due data old
           \<and> d' = d\<lparr>tasks := map (\<lambda>t. if task_id t = i then set_columns (now env) due data t else t)
                                (tasks d)\<rparr>"
  using updateTask_Some [OF assms(1)] assms(2) enrichTask_Inr by fastforce

lemma filter_updated:
  "filter (\<lambda>t. task_id t \<noteq> i) (map (\<lambda>t. if task_id t = i then set_columns s due data t else t) xs)
     = filter (\<lambda>t. task_id t \<noteq> i) xs"
  by (induction xs) auto

lemma updateTask_succeeds:
  assumes old: "find (\<lambda>t. task_id t = i) (tasks d) = Some old"
    and creator: "getUser d (creatorId old) \<noteq> None"
    and due: "due_patch env (upd_dueDate data) = Inr due"
    and fk: "\<forall>a. upd_assignedToId data = Val a \<longrightarrow> getUser d a \<noteq> None"
  shows "\<exists>t'. updateTask env d i data =
           (Inr (Some t'),
            d\<lparr>tasks := map (\<lambda>t. if task_id t = i then set_columns (now env) due data t else t)
                          (tasks d)\<rparr>)"
proof -
  let ?upd = "set_columns (now env) due data"
  let ?d' = "d\<lparr>tasks := map (\<lambda>t. if task_id t = i then ?upd t else t) (tasks d)\<rparr>"
  have nobad: "\<not> list_ex (\<lambda>t. task_id t = i \<and> assignedToId (?upd t) \<noteq> assignedToId t
                            \<and> dangling d (assignedToId (?upd t))) (tasks d)"
    using fk by (auto simp: list_ex_iff set_columns_def dangling_def getUser_def split: field.splits)
  have found: "find (\<lambda>t. task_id t = i) (tasks ?d') = Some (?upd old)"
    using old by (simp add: find_updated)
  from creator obtain c where "find (\<lambda>u. user_id u = creatorId (?upd old)) (users ?d') = Some c"
    by (auto simp: getUser_def)
  then obtain t' where "enrichTask ?d' (?upd old) = Inr t'"
    by (simp add: enrichTask_def Let_def)
  with due nobad found show ?thesis
    by (simp add: updateTask_def Let_def)
qed

section \<open>Partial updates\<close>

text \<open>
  C6. When \<open>updateTask\<close> returns a task for an existing row, every column whose property
  the patch lacks keeps its value, every column the patch names takes the patch's value,
  \<open>updatedAt\<close> is the time of the request, and id, creator and \<open>createdAt\<close> are kept. A
  patch whose \<open>dueDate\<close> is \<open>null\<close> clears the due date and a patch without \<open>dueDate\<close>
  leaves it alone. The returned task is the stored row; no other row and no user changes.
  (\<open>updateTask_succeeds\<close> above: the update does return a task whenever the row exists,
  its creator resolves, the date parses and a new assignee names a user.)
\<close>

theorem updateTask_frame:
  assumes "updateTask env d i data = (Inr (Some t'), d')"
    and "find (\<lambda>t. task_id t = i) (tasks d) = Some old"
  shows "(upd_title data = None \<longrightarrow> title t' = title old)
       \<and> (\<forall>x. upd_title data = Some x \<longrightarrow> title t' = x)
       \<and> (upd_description data = Absent \<longrightarrow> description t' = description old)
       \<and> (upd_description data = Null \<longrightarrow> description t' = None)
       \<and> (\<forall>x. upd_description data = Val x \<longrightarrow> description t' = Some x)
       \<and> (upd_priority data = None \<longrightarrow> priority t' = priority old)
       \<and> (\<forall>x. upd_priority data = Some x \<longrightarrow> priority t' = x)
       \<and> (upd_status data = None \<longrightarrow> status t' = status old)
       \<and> (\<forall>x. upd_status data = Some x \<longrightarrow> status t' = x)
       \<and> (upd_assignedToId data = Absent \<longrightarrow> assignedToId t' = assignedToId old)
       \<and> (upd_assignedToId data = Null \<longrightarrow> assignedToId t' = None)
       \<and> (\<forall>x. upd_assignedToId data = Val x \<longrightarrow> assignedToId t' = Some x)
       \<and> (upd_dueDate data = Absent \<longrightarrow> dueDate t' = dueDate old)
       \<and> (upd_dueDate data = Null \<longrightarrow> dueDate t' = None)
       \<and> (upd_dueDate data = Val [] \<longrightarrow> dueDate t' = None)
       \<and> (\<forall>x. upd_dueDate data = Val x \<and> x \<noteq> []
              \<longrightarrow> dueDate t' = newDate env x \<and> newDate env x \<noteq> None)
       \<and> updatedAt t' = now env
       \<and> task_id t' = task_id old \<and> creatorId t' = creatorId old \<and> createdAt t' = createdAt old
       \<and> find (\<lambda>t. task_id t = i) (tasks d') = Some (Task.truncate t')
       \<and> filter (\<lambda>t. task_id t \<noteq> i) (tasks d') = filter (\<lambda>t. task_id t \<noteq> i) (tasks d)
       \<and> users d' = users d"
proof -
  from updateTask_row [OF assms] obtain due where
    due: "due_patch env (upd_dueDate data) = Inr due"
    and row: "Task.truncate t' = set_columns (now env) due data old"
    and d': "d' = d\<lparr>tasks := map (\<lambda>t. if task_id t = i then set_columns (now env) due data t else t)
                                (tasks d)\<rparr>"
    by blast
  note f = truncate_fields [OF row]
  have cols: "title t' = (case upd_title data of None \<Rightarrow> title old | Some x \<Rightarrow> x)"
    "description t' = (case upd_description data of
                         Absent \<Rightarrow> description old | Null \<Rightarrow> None | Val x \<Rightarrow> Some x)"
    "priority t' = (case upd_priority data of None \<Rightarrow> priority old | Some x \<Rightarrow> x)"
    "status t' = (case upd_status data of None \<Rightarrow> status old | Some x \<Rightarrow> x)"
    "assignedToId t' = (case upd_assignedToId data of
                          Absent \<Rightarrow> assignedToId old | Null \<Rightarrow> None | Val x \<Rightarrow> Some x)"
    "dueDate t' = (case due of None \<Rightarrow> dueDate old | Some x \<Rightarrow> x)"
    using f by (simp_all add: set_columns_def)
  have stamps: "updatedAt t' = now env" "task_id t' = task_id old"
    "creatorId t' = creatorId old" "createdAt t' = createdAt old"
    using f by simp_all
  have due_cases:
    "upd_dueDate data = Absent \<longrightarrow> due = None"
    "upd_dueDate data = Null \<longrightarrow> due = Some None"
    "upd_dueDate data = Val [] \<longrightarrow> due = Some None"
    "\<forall>x. upd_dueDate data = Val x \<and> x \<noteq> [] \<longrightarrow> due = Some (newDate env x) \<and> newDate env x \<noteq> None"
    using due by (auto simp: due_patch_def split: field.splits if_splits option.splits)
  have stored: "find (\<lambda>t. task_id t = i) (tasks d') = Some (Task.truncate t')"
    using d' row assms(2) by (simp add: find_updated)
  have others: "filter (\<lambda>t. task_id t \<noteq> i) (tasks d') = filter (\<lambda>t. task_id t \<noteq> i) (tasks d)"
    "users d' = users d"
    using d' by (simp_all add: filter_updated)
  show ?thesis
    using cols stamps due_cases stored others by auto
qed


theorem updateTask_frame_witness:
  "(\<exists>t' d'. updateTask sample_env sample_db ''t1'' (no_patch\<lparr>upd_status := Some Completed\<rparr>)
              = (Inr (Some t'), d')
            \<and> status t' = Completed \<and> title t' = ''Write report'' \<and> priority t' = High
            \<and> assignedToId t' = None \<and> dueDate t' = Some 500 \<and> updatedAt t' = 2000)
   \<and> (\<exists>t' d'. updateTask sample_env sample_db ''t1'' (no_patch\<lparr>upd_dueDate := Null\<rparr>)
              = (Inr (Some t'), d')
            \<and> dueDate t' = None)
   \<and> find (\<lambda>t. task_id t = ''t1'') (tasks sample_db) = Some task1"
proof -
  have old: "find (\<lambda>t. task_id t = ''t1'') (tasks sample_db) = Some task1"
    by (simp add: sample_db_def task1_def)
  have creator: "getUser sample_db (creatorId task1) \<noteq> None"
    by (simp add: getUser_def sample_db_def task1_def ann_def)
  have due1: "due_patch sample_env (upd_dueDate (no_patch\<lparr>upd_status := Some Completed\<rparr>)) = Inr None"
    by (simp add: due_patch_def no_patch_def)
  have due2: "due_patch sample_env (upd_dueDate (no_patch\<lparr>upd_dueDate := Null\<rparr>)) = Inr (Some None)"
    by (simp add: due_patch_def no_patch_def)
  from updateTask_succeeds [OF old creator due1] obtain t1 d1 where
    u1: "updateTask sample_env sample_db ''t1'' (no_patch\<lparr>upd_status := Some Completed\<rparr>)
           = (Inr (Some t1), d1)"
    by (auto simp: no_patch_def)
  from updateTask_succeeds [OF old creator due2] obtain t2 d2 where
    u2: "updateTask sample_env sample_db ''t1'' (no_patch\<lparr>upd_dueDate := Null\<rparr>)
           = (Inr (Some t2), d2)"
    by (auto simp: no_patch_def)
  have now: "now sample_env = 2000" by (simp add: sample_env_def)
  from updateTask_frame [OF u1 old] now
  have "status t1 = Completed \<and> title t1 = ''Write report'' \<and> priority t1 = High
        \<and> assignedToId t1 = None \<and> dueDate t1 = Some 500 \<and> updatedAt t1 = 2000"
    by (simp add: no_patch_def task1_def)
  moreover from updateTask_frame [OF u2 old]
  have "dueDate t2 = None"
    by (simp add: no_patch_def)
  ultimately show ?thesis using u1 u2 old by blast
qed


section \<open>Facts about enrichment\<close>

lemma enrich_all_Inr:
  "enrich_all d ts = Inr xs \<Longrightarrow> \<forall>x\<in>set xs. \<exists>t\<in>set ts. enrichTask d t = Inr x"
  by (induction ts arbitrary: xs) (auto split: sum.splits)

lemma enrich_all_Inl:
  "\<exists>t\<in>set ts. getUser d (creatorId t) = None \<Longrightarrow> enrich_all d ts = Inl destructure_undefined"
proof (induction ts)
  case Nil
  then show ?case by simp
next
  case (Cons t ts)
  show ?case
  proof (cases "enrichTask d t")
    case (Inl e)
    then show ?thesis using enrichTask_Inl [OF Inl] by simp
  next
    case (Inr x)
    then have "getUser d (creatorId t) \<noteq> None"
      using enrichTask_Inr [OF Inr] by auto
    with Cons.prems have "\<exists>t\<in>set ts. getUser d (creatorId t) = None" by auto
    with Cons.IH Inr show ?thesis by simp
  qed
qed

lemma createTask_Inr:
  assumes "createTask env d ins c = (Inr t, d')"
  shows "\<exists>due task. due_of env (ins_dueDate ins) = Inr due
           \<and> task = \<lparr>task_id = randomUUID env, title = ins_title ins,
                     description = field_opt (ins_description ins), dueDate = due,
                     priority = (case ins_priority ins of None \<Rightarrow> Medium | Some p \<Rightarrow> p),
                     status = (case ins_status ins of None \<Rightarrow> Todo | Some s \<Rightarrow> s),
                     creatorId = c, assignedToId = field_opt (ins_assignedToId ins),
                     createdAt = now env, updatedAt = now env\<rparr>
           \<and> d' = d\<lparr>tasks := tasks d @ [task]\<rparr>
           \<and> enrichTask d' task = Inr t
           \<and> \<not> list_ex (\<lambda>x. task_id x = randomUUID env) (tasks d)
           \<and> \<not> dangling d (Some c) \<and> \<not> dangling d (assignedToId task)"
  using assms
  by (cases "due_of env (ins_dueDate ins)")
     (auto simp: createTask_def Let_def split: if_splits)

section \<open>Dangling references\<close>

text \<open>
  C10. A task whose creator resolves and whose assignee names no user is enriched with
  \<open>assignedTo = null\<close>. A task whose creator names no user is not enriched at all:
  \<open>enrichTask\<close> throws, and so do \<open>getTask\<close> on that task and \<open>getAllTasks\<close> on a store
  that holds one. Whatever \<open>enrichTask\<close>, \<open>getTask\<close>, \<open>getAllTasks\<close>, \<open>createTask\<close> or
  \<open>updateTask\<close> returns has a creator that resolves.
\<close>

theorem enrichment_asymmetry:
  "(\<forall>c. getUser d (creatorId task) = Some c \<and> dangling d (assignedToId task)
        \<longrightarrow> (\<exists>t. enrichTask d task = Inr t \<and> assignedTo t = None
                 \<and> creator t = toPublicUser c \<and> Task.truncate t = task))
   \<and> (getUser d (creatorId task) = None \<longrightarrow> enrichTask d task = Inl destructure_undefined)
   \<and> (\<forall>t. enrichTask d task = Inr t \<longrightarrow> getUser d (creatorId t) \<noteq> None)
   \<and> (\<forall>t. getTask d i = Inr (Some t) \<longrightarrow> getUser d (creatorId t) \<noteq> None)
   \<and> (\<forall>ts. getAllTasks d = Inr ts \<longrightarrow> (\<forall>t\<in>set ts. getUser d (creatorId t) \<noteq> None))
   \<and> (\<forall>t d'. createTask env d ins c' = (Inr t, d') \<longrightarrow> getUser d' (creatorId t) \<noteq> None)
   \<and> (\<forall>t d'. updateTask env d i data = (Inr (Some t), d') \<longrightarrow> getUser d' (creatorId t) \<noteq> None)
   \<and> (\<forall>row. find (\<lambda>t. task_id t = i) (tasks d) = Some row \<and> getUser d (creatorId row) = None
          \<longrightarrow> getTask d i = Inl destructure_undefined)
   \<and> ((\<exists>row\<in>set (tasks d). getUser d (creatorId row) = None)
          \<longrightarrow> getAllTasks d = Inl destructure_undefined)"
proof -
  have resolves: "getUser d0 (creatorId t) \<noteq> None" if "enrichTask d0 row = Inr t" for d0 row t
    using enrichTask_Inr [OF that] truncate_fields [of t row] by auto
  have a: "\<forall>c. getUser d (creatorId task) = Some c \<and> dangling d (assignedToId task)
        \<longrightarrow> (\<exists>t. enrichTask d task = Inr t \<and> assignedTo t = None
                 \<and> creator t = toPublicUser c \<and> Task.truncate t = task)"
    by (auto simp: enrichTask_def getUser_def dangling_def Let_def split: option.splits)
  have b: "getUser d (creatorId task) = None \<longrightarrow> enrichTask d task = Inl destructure_undefined"
    by (simp add: enrichTask_def getUser_def Let_def)
  have c: "\<forall>t. enrichTask d task = Inr t \<longrightarrow> getUser d (creatorId t) \<noteq> None"
    using resolves by blast
  have g: "\<forall>t. getTask d i = Inr (Some t) \<longrightarrow> getUser d (creatorId t) \<noteq> None"
    using getTask_Some resolves by blast
  have l: "\<forall>ts. getAllTasks d = Inr ts \<longrightarrow> (\<forall>t\<in>set ts. getUser d (creatorId t) \<noteq> None)"
    unfolding getAllTasks_def using enrich_all_Inr resolves by blast
  have cr: "\<forall>t d'. createTask env d ins c' = (Inr t, d') \<longrightarrow> getUser d' (creatorId t) \<noteq> None"
    using createTask_Inr resolves by blast
  have u: "\<forall>t d'. updateTask env d i data = (Inr (Some t), d') \<longrightarrow> getUser d' (creatorId t) \<noteq> None"
    using updateTask_Some resolves by blast
  have g': "\<forall>row. find (\<lambda>t. task_id t = i) (tasks d) = Some row \<and> getUser d (creatorId row) = None
          \<longrightarrow> getTask d i = Inl destructure_undefined"
    by (auto simp: getTask_def enrichTask_def getUser_def Let_def)
  have l': "(\<exists>row\<in>set (tasks d). getUser d (creatorId row) = None)
          \<longrightarrow> getAllTasks d = Inl destructure_undefined"
    unfolding getAllTasks_def using enrich_all_Inl [of "rev (sort_key createdAt (tasks d))" d]
    by simp
  from a b c g l cr u g' l' show ?thesis by blast
qed

theorem enrichment_asymmetry_witness:
  "(\<exists>t. enrichTask sample_db (task1\<lparr>assignedToId := Some ''u8''\<rparr>) = Inr t
        \<and> assignedTo t = None \<and> creator t = toPublicUser ann)
   \<and> getUser sample_db ''u1'' = Some ann
   \<and> dangling sample_db (Some ''u8'')
   \<and> getUser sample_db ''u7'' = None
   \<and> enrichTask sample_db (task1\<lparr>creatorId := ''u7''\<rparr>) = Inl destructure_undefined"
proof -
  have 1: "getUser sample_db (creatorId (task1\<lparr>assignedToId := Some ''u8''\<rparr>)) = Some ann"
    by (simp add: getUser_def sample_db_def task1_def ann_def)
  have 2: "dangling sample_db (assignedToId (task1\<lparr>assignedToId := Some ''u8''\<rparr>))"
    by (simp add: dangling_def sample_db_def ann_def bob_def)
  have 3: "getUser sample_db (creatorId (task1\<lparr>creatorId := ''u7''\<rparr>)) = None"
    by (simp add: getUser_def sample_db_def ann_def bob_def)
  from enrichment_asymmetry [of sample_db "task1\<lparr>assignedToId := Some ''u8''\<rparr>"] 1 2
  have "\<exists>t. enrichTask sample_db (task1\<lparr>assignedToId := Some ''u8''\<rparr>) = Inr t
        \<and> assignedTo t = None \<and> creator t = toPublicUser ann"
    by blast
  moreover from enrichment_asymmetry [of sample_db "task1\<lparr>creatorId := ''u7''\<rparr>"] 3
  have "enrichTask sample_db (task1\<lparr>creatorId := ''u7''\<rparr>) = Inl destructure_undefined"
    by blast
  ultimately show ?thesis using 1 2 3 by (simp add: task1_def)
qed

section \<open>Tasks that do not exist\<close>

lemma deleteTask_absent:
  "find (\<lambda>t. task_id t = i) (tasks d) = None \<Longrightarrow> deleteTask d i = (False, d)"
proof -
  assume "find (\<lambda>t. task_id t = i) (tasks d) = None"
  then have none: "\<forall>t\<in>set (tasks d). task_id t \<noteq> i"
    by (simp add: find_None_iff)
  then have "filter (\<lambda>t. task_id t = i) (tasks d) = []" "filter (\<lambda>t. task_id t \<noteq> i) (tasks d) = tasks d"
    by (simp_all add: filter_empty_conv filter_id_conv)
  then show ?thesis by (simp add: deleteTask_def)
qed

lemma deleteTask_present:
  "find (\<lambda>t. task_id t = i) (tasks d) = Some row \<Longrightarrow> fst (deleteTask d i)"
  by (auto simp: deleteTask_def find_Some_iff filter_empty_conv)

lemma delete_task_404:
  "http_status (reply (delete_task d i)) = 404 \<Longrightarrow> store (delete_task d i) = d"
proof (cases "getTask d i")
  case (Inl e)
  then show ?thesis by (simp add: delete_task_def respond_def)
next
  case (Inr r)
  assume st: "http_status (reply (delete_task d i)) = 404"
  show ?thesis
  proof (cases r)
    case None
    with Inr show ?thesis by (simp add: delete_task_def respond_def)
  next
    case (Some existing)
    with Inr getTask_Some obtain row where "find (\<lambda>t. task_id t = i) (tasks d) = Some row"
      by blast
    from deleteTask_present [OF this] Inr Some st show ?thesis
      by (cases "deleteTask d i") (simp add: delete_task_def message_reply_def json_reply_def)
  qed
qed

lemma auth_status:
  "authMiddleware env tok = Inl r \<Longrightarrow> http_status r = 401"
  by (auto simp: authMiddleware_def message_reply_def json_reply_def split: option.splits if_splits)

text \<open>
  C5. For an id no task row has, GET, PATCH and DELETE of that task change nothing, emit
  nothing and never succeed: behind a valid session each answers 404 \<open>Task not found\<close>
  (whatever the body of the PATCH), and without one \<open>authMiddleware\<close> has answered 401.
  \<open>deleteTask\<close> returns true exactly when a row had the id, removes the rows with the id
  and no other, and a false result leaves the store as it was; a DELETE answered 404
  leaves the store as it was.
\<close>

theorem missing_task_not_found:
  "(find (\<lambda>t. task_id t = i) (tasks d) = None \<longrightarrow>
      (\<forall>r \<in> {GetTask i, PatchTask i b, DeleteTask i}.
         store (route env d tok r) = d
         \<and> emitted (route env d tok r) = []
         \<and> http_status (reply (route env d tok r)) \<in> {401, 404}
         \<and> (\<forall>u. authMiddleware env tok = Inr u
                \<longrightarrow> reply (route env d tok r) = message_reply 404 ''Task not found'')))
   \<and> fst (deleteTask d i) = (\<exists>t\<in>set (tasks d). task_id t = i)
   \<and> tasks (snd (deleteTask d i)) = filter (\<lambda>t. task_id t \<noteq> i) (tasks d)
   \<and> users (snd (deleteTask d i)) = users d
   \<and> (\<not> fst (deleteTask d i) \<longrightarrow> snd (deleteTask d i) = d)
   \<and> (http_status (reply (route env d tok (DeleteTask i))) = 404
        \<longrightarrow> store (route env d tok (DeleteTask i)) = d)"
proof -
  have routes: "store (route env d tok r) = d
         \<and> emitted (route env d tok r) = []
         \<and> http_status (reply (route env d tok r)) \<in> {401, 404}
         \<and> (\<forall>u. authMiddleware env tok = Inr u
                \<longrightarrow> reply (route env d tok r) = message_reply 404 ''Task not found'')"
    if absent: "find (\<lambda>t. task_id t = i) (tasks d) = None"
      and r: "r \<in> {GetTask i, PatchTask i b, DeleteTask i}" for r
  proof -
    from absent have g: "getTask d i = Inr None" by (simp add: getTask_None)
    show ?thesis
    proof (cases "authMiddleware env tok")
      case (Inl resp)
      with r auth_status [OF Inl] show ?thesis
        by (auto simp: protected_def respond_def)
    next
      case (Inr u)
      with r g show ?thesis
        by (auto simp: protected_def respond_def get_task_def patch_task_def delete_task_def
                       message_reply_def json_reply_def)
    qed
  qed
  have del: "fst (deleteTask d i) = (\<exists>t\<in>set (tasks d). task_id t = i)"
    "tasks (snd (deleteTask d i)) = filter (\<lambda>t. task_id t \<noteq> i) (tasks d)"
    "users (snd (deleteTask d i)) = users d"
    by (auto simp: deleteTask_def filter_empty_conv)
  have unchanged: "\<not> fst (deleteTask d i) \<longrightarrow> snd (deleteTask d i) = d"
  proof
    assume "\<not> fst (deleteTask d i)"
    with del(1) have "find (\<lambda>t. task_id t = i) (tasks d) = None"
      by (simp add: find_None_iff)
    from deleteTask_absent [OF this] show "snd (deleteTask d i) = d" by simp
  qed
  have nf: "http_status (reply (route env d tok (DeleteTask i))) = 404
        \<longrightarrow> store (route env d tok (DeleteTask i)) = d"
  proof (cases "authMiddleware env tok")
    case (Inl resp)
    then show ?thesis by (simp add: protected_def respond_def)
  next
    case (Inr u)
    then show ?thesis using delete_task_404 by (simp add: protected_def)
  qed
  from routes del unchanged nf show ?thesis by blast
qed

theorem missing_task_not_found_witness:
  "find (\<lambda>t. task_id t = ''t7'') (tasks sample_db) = None
   \<and> authMiddleware sample_env (Some ''u1:ann@example.org'')
       = Inr \<lparr>userId = ''u1'', jwt_email = ''ann@example.org''\<rparr>
   \<and> reply (route sample_env sample_db (Some ''u1:ann@example.org'') (GetTask ''t7''))
       = message_reply 404 ''Task not found''
   \<and> reply (route sample_env sample_db (Some ''u1:ann@example.org'') (PatchTask ''t7'' (JObj [])))
       = message_reply 404 ''Task not found''
   \<and> reply (route sample_env sample_db (Some ''u1:ann@example.org'') (DeleteTask ''t7''))
       = message_reply 404 ''Task not found''
   \<and> store (route sample_env sample_db (Some ''u1:ann@example.org'') (DeleteTask ''t7'')) = sample_db
   \<and> \<not> fst (deleteTask sample_db ''t7'')
   \<and> fst (deleteTask sample_db ''t1'')"
proof -
  have absent: "find (\<lambda>t. task_id t = ''t7'') (tasks sample_db) = None"
    by (simp add: sample_db_def task1_def)
  have auth: "authMiddleware sample_env (Some ''u1:ann@example.org'')
       = Inr \<lparr>userId = ''u1'', jwt_email = ''ann@example.org''\<rparr>"
    by (simp add: authMiddleware_def sample_env_def)
  have present: "\<exists>t\<in>set (tasks sample_db). task_id t = ''t1''"
    by (simp add: sample_db_def task1_def)
  from missing_task_not_found [of "''t7''" sample_db "JObj []" sample_env "Some ''u1:ann@example.org''"]
       missing_task_not_found [of "''t1''" sample_db "JObj []" sample_env "Some ''u1:ann@example.org''"]
       absent auth present
  show ?thesis by (simp add: find_None_iff)
qed

section \<open>Events of a PATCH\<close>

lemma reply_status [simp]:
  "http_status (message_reply st m) = st"
  "http_status (json_reply st v) = st"
  by (simp_all add: message_reply_def json_reply_def)

lemma reply_body [simp]:
  "body (message_reply st m) = JObj [(''message'', JStr m)]"
  "body (json_reply st v) = v"
  by (simp_all add: message_reply_def json_reply_def)

lemma handleError_status:
  "http_status (handleError e dm) = 400 \<or> http_status (handleError e dm) = 500"
  by (cases e) simp_all

lemma handleError_not_200 [simp]: "http_status (handleError e dm) \<noteq> 200"
  using handleError_status [of e dm] by auto

lemma patch_task_200:
  assumes "http_status (reply (patch_task env d i b)) = 200"
  shows "\<exists>data prev task.
           getTask d i = Inr (Some prev)
           \<and> parseUpdateTask env b = Inr data
           \<and> updateTask env d i data = (Inr (Some task), store (patch_task env d i b))
           \<and> reply (patch_task env d i b) = json_reply 200 (twr_js task)
           \<and> emitted (patch_task env d i b) =
               (''task:updated'', JObj [(''taskId'', JStr (task_id task)), (''data'', twr_js task)])
               # (case upd_assignedToId data of
                    Val a \<Rightarrow>
                      if a \<noteq> [] \<and> Some a \<noteq> assignedToId prev
                      then [(''task:assigned'',
                             JObj [(''taskId'', JStr (task_id task)), (''userId'', JStr a),
                                   (''data'', twr_js task)])]
                      else []
                  | _ \<Rightarrow> [])"
proof (cases "getTask d i")
  case (Inl e)
  with assms show ?thesis by (simp add: patch_task_def respond_def)
next
  case (Inr g)
  show ?thesis
  proof (cases g)
    case None
    with Inr assms show ?thesis
      by (simp add: patch_task_def respond_def)
  next
    case (Some prev)
    show ?thesis
    proof (cases "parseUpdateTask env b")
      case (Inl issues)
      with Inr Some assms show ?thesis by (simp add: patch_task_def respond_def)
    next
      case parsed: (Inr data)
      obtain res d' where upd: "updateTask env d i data = (res, d')"
        by (cases "updateTask env d i data") auto
      show ?thesis
      proof (cases res)
        case (Inl e)
        with Inr Some parsed upd assms show ?thesis
          by (simp add: patch_task_def respond_def)
      next
        case ok: (Inr r)
        show ?thesis
        proof (cases r)
          case None
          with ok Inr Some parsed upd assms show ?thesis
            by (simp add: patch_task_def respond_def)
        next
          case (Some task)
          with ok Inr \<open>g = Some prev\<close> parsed upd show ?thesis
            by (simp add: patch_task_def)
        qed
      qed
    qed
  qed
qed


lemma getTask_assignee:
  assumes "getTask d i = Inr (Some prev)"
  shows "\<exists>row. find (\<lambda>t. task_id t = i) (tasks d) = Some row
           \<and> assignedToId prev = assignedToId row \<and> task_id prev = i"
proof -
  from getTask_Some [OF assms] obtain row where
    row: "find (\<lambda>t. task_id t = i) (tasks d) = Some row" and e: "enrichTask d row = Inr prev"
    by blast
  from enrichTask_Inr [OF e] have "Task.truncate prev = row" by simp
  from truncate_fields [OF this] row show ?thesis
    by (auto simp: find_Some_iff)
qed

lemma assigned_user_exists:
  assumes upd: "updateTask env d i data = (Inr (Some task), d')"
    and row: "find (\<lambda>t. task_id t = i) (tasks d) = Some row"
    and val: "upd_assignedToId data = Val a"
    and changed: "Some a \<noteq> assignedToId row"
  shows "\<exists>u\<in>set (users d). user_id u = a"
proof -
  from updateTask_Some [OF upd] row obtain due where
    "\<not> (assignedToId (set_columns (now env) due data row) \<noteq> assignedToId row
        \<and> dangling d (assignedToId (set_columns (now env) due data row)))"
    by auto
  moreover have "assignedToId (set_columns (now env) due data row) = Some a"
    using val by (simp add: set_columns_def)
  ultimately have "\<not> dangling d (Some a)" using changed by auto
  then show ?thesis
    by (auto simp: dangling_def find_None_iff)
qed

text \<open>
  C2. On a store whose user ids are non-empty, a PATCH answered 200 has updated the
  task and emitted \<open>task:updated\<close> first; \<open>task:assigned\<close> follows exactly when the patch
  has a non-null \<open>assignedToId\<close> different from the assignee the task had, and then it
  is the second and last event, with the same \<open>taskId\<close>, the new assignee as \<open>userId\<close>
  and the same task. A patch to the assignee the task already had, or to \<open>null\<close>, or
  without \<open>assignedToId\<close>, emits \<open>task:updated\<close> alone. (The handler tests the new
  assignee for truthiness; the empty string, the one falsy string, names no user, so
  the store refuses it.)
\<close>

theorem patch_events:
  assumes ids: "ids_ok d"
    and ok: "http_status (reply (route env d tok (PatchTask i b))) = 200"
  shows "\<exists>data prev task.
           getTask d i = Inr (Some prev)
           \<and> parseUpdateTask env b = Inr data
           \<and> updateTask env d i data = (Inr (Some task), store (route env d tok (PatchTask i b)))
           \<and> task_id task = i
           \<and> reply (route env d tok (PatchTask i b)) = json_reply 200 (twr_js task)
           \<and> emitted (route env d tok (PatchTask i b)) =
               (''task:updated'', JObj [(''taskId'', JStr i), (''data'', twr_js task)])
               # (case upd_assignedToId data of
                    Val a \<Rightarrow>
                      if Some a \<noteq> assignedToId prev
                      then [(''task:assigned'',
                             JObj [(''taskId'', JStr i), (''userId'', JStr a),
                                   (''data'', twr_js task)])]
                      else []
                  | _ \<Rightarrow> [])"
proof -
  have r: "route env d tok (PatchTask i b) = patch_task env d i b"
  proof (cases "authMiddleware env tok")
    case (Inl resp)
    with ok auth_status [OF Inl] show ?thesis
      by (simp add: protected_def respond_def)
  next
    case (Inr u)
    then show ?thesis by (simp add: protected_def)
  qed
  from ok r have "http_status (reply (patch_task env d i b)) = 200" by simp
  from patch_task_200 [OF this] obtain data prev task where
    g: "getTask d i = Inr (Some prev)"
    and p: "parseUpdateTask env b = Inr data"
    and u: "updateTask env d i data = (Inr (Some task), store (patch_task env d i b))"
    and rep: "reply (patch_task env d i b) = json_reply 200 (twr_js task)"
    and ev: "emitted (patch_task env d i b) =
               (''task:updated'', JObj [(''taskId'', JStr (task_id task)), (''data'', twr_js task)])
               # (case upd_assignedToId data of
                    Val a \<Rightarrow>
                      if a \<noteq> [] \<and> Some a \<noteq> assignedToId prev
                      then [(''task:assigned'',
                             JObj [(''taskId'', JStr (task_id task)), (''userId'', JStr a),
                                   (''data'', twr_js task)])]
                      else []
                  | _ \<Rightarrow> [])"
    by blast
  from getTask_assignee [OF g] obtain row where
    row: "find (\<lambda>t. task_id t = i) (tasks d) = Some row"
    and same: "assignedToId prev = assignedToId row"
    by blast
  have tid: "task_id task = i"
    using updateTask_row [OF u row] truncate_fields [of task] row
    by (auto simp: find_Some_iff)
  have nonempty: "a \<noteq> []" if "upd_assignedToId data = Val a" "Some a \<noteq> assignedToId prev" for a
  proof -
    from assigned_user_exists [OF u row that(1)] that(2) same
    obtain usr where "usr \<in> set (users d)" "user_id usr = a" by auto
    with ids show ?thesis by (auto simp: ids_ok_def list_all_iff)
  qed
  have "emitted (patch_task env d i b) =
          (''task:updated'', JObj [(''taskId'', JStr i), (''data'', twr_js task)])
          # (case upd_assignedToId data of
               Val a \<Rightarrow>
                 if Some a \<noteq> assignedToId prev
                 then [(''task:assigned'',
                        JObj [(''taskId'', JStr i), (''userId'', JStr a), (''data'', twr_js task)])]
                 else []
             | _ \<Rightarrow> [])"
    using ev tid nonempty by (cases "upd_assignedToId data") auto
  with g p u rep tid r show ?thesis by auto
qed


theorem patch_events_witness:
  "ids_ok sample_db
   \<and> http_status (reply (route sample_env sample_db (Some ''u1:ann@example.org'')
                      (PatchTask ''t1'' (JObj [(''assignedToId'', JStr ''u2'')])))) = 200
   \<and> map fst (emitted (route sample_env sample_db (Some ''u1:ann@example.org'')
                      (PatchTask ''t1'' (JObj [(''assignedToId'', JStr ''u2'')]))))
       = [''task:updated'', ''task:assigned'']
   \<and> http_status (reply (route sample_env sample_db (Some ''u1:ann@example.org'')
                      (PatchTask ''t1'' (JObj [(''assignedToId'', JNull)])))) = 200
   \<and> map fst (emitted (route sample_env sample_db (Some ''u1:ann@example.org'')
                      (PatchTask ''t1'' (JObj [(''assignedToId'', JNull)]))))
       = [''task:updated'']"
proof -
  let ?tok = "Some ''u1:ann@example.org''"
  let ?assign = "PatchTask ''t1'' (JObj [(''assignedToId'', JStr ''u2'')])"
  let ?clear = "PatchTask ''t1'' (JObj [(''assignedToId'', JNull)])"
  have ids: "ids_ok sample_db"
    by (simp add: ids_ok_def sample_db_def ann_def bob_def)
  have ok1: "http_status (reply (route sample_env sample_db ?tok ?assign)) = 200"
    by code_simp
  have ok2: "http_status (reply (route sample_env sample_db ?tok ?clear)) = 200"
    by code_simp
  have p1: "parseUpdateTask sample_env (JObj [(''assignedToId'', JStr ''u2'')])
              = Inr (no_patch\<lparr>upd_assignedToId := Val ''u2''\<rparr>)"
    by (simp add: sample_env_def sample_parseUpdateTask_def)
  have p2: "parseUpdateTask sample_env (JObj [(''assignedToId'', JNull)])
              = Inr (no_patch\<lparr>upd_assignedToId := Null\<rparr>)"
    by (simp add: sample_env_def sample_parseUpdateTask_def)
  have prev: "assignedToId prev = None" if "getTask sample_db ''t1'' = Inr (Some prev)" for prev
    using getTask_assignee [OF that] by (auto simp: sample_db_def task1_def)
  from patch_events [OF ids ok1] p1 prev
  have "map fst (emitted (route sample_env sample_db ?tok ?assign))
          = [''task:updated'', ''task:assigned'']"
    by auto
  moreover from patch_events [OF ids ok2] p2
  have "map fst (emitted (route sample_env sample_db ?tok ?clear)) = [''task:updated'']"
    by auto
  ultimately show ?thesis using ids ok1 ok2 by simp
qed

section \<open>Timestamps\<close>

lemma createUser_store:
  "createUser env d iu = (res, d') \<Longrightarrow>
     d' = d \<or> (\<exists>u. d' = d\<lparr>users := users d @ [u]\<rparr> \<and> user_id u = randomUUID env)"
  by (auto simp: createUser_def Let_def split: if_splits)

lemma createTask_store:
  "createTask env d ins c = (res, d') \<Longrightarrow>
     d' = d
     \<or> (\<exists>task. d' = d\<lparr>tasks := tasks d @ [task]\<rparr>
            \<and> createdAt task = now env \<and> updatedAt task = now env
            \<and> (\<forall>t\<in>set (tasks d). task_id t \<noteq> task_id task))"
  by (cases "due_of env (ins_dueDate ins)")
     (auto simp: createTask_def Let_def list_ex_iff split: if_splits)

lemma updateTask_store:
  "updateTask env d i data = (res, d') \<Longrightarrow>
     d' = d
     \<or> (\<exists>due. d' = d\<lparr>tasks := map (\<lambda>t. if task_id t = i then set_columns (now env) due data t
                                          else t) (tasks d)\<rparr>)"
  by (cases "due_patch env (upd_dueDate data)")
     (auto simp: updateTask_def Let_def split: option.splits sum.splits if_splits)

text \<open>What a request can do to the two tables.\<close>

lemma route_store:
  "store (route env d tok r) = d
   \<or> (\<exists>u. store (route env d tok r) = d\<lparr>users := users d @ [u]\<rparr> \<and> user_id u = randomUUID env)
   \<or> (\<exists>task. store (route env d tok r) = d\<lparr>tasks := tasks d @ [task]\<rparr>
          \<and> createdAt task = now env \<and> updatedAt task = now env
          \<and> (\<forall>t\<in>set (tasks d). task_id t \<noteq> task_id task))
   \<or> (\<exists>i due data. store (route env d tok r)
          = d\<lparr>tasks := map (\<lambda>t. if task_id t = i then set_columns (now env) due data t else t)
                          (tasks d)\<rparr>)
   \<or> (\<exists>i. store (route env d tok r) = d\<lparr>tasks := filter (\<lambda>t. task_id t \<noteq> i) (tasks d)\<rparr>)"
proof (cases r)
  case (Register b)
  then show ?thesis
    by (auto simp: post_auth_register_def respond_def
             split: sum.splits prod.splits dest: createUser_store)
next
  case (Login b)
  then show ?thesis
    by (simp add: post_auth_login_def respond_def split: sum.splits option.splits)
next
  case Logout
  then show ?thesis by (simp add: post_auth_logout_def respond_def)
next
  case Me
  then show ?thesis
    by (simp add: protected_def get_auth_me_def respond_def split: sum.splits option.splits)
next
  case ListUsers
  then show ?thesis
    by (simp add: protected_def get_users_def respond_def split: sum.splits)
next
  case ListTasks
  then show ?thesis
    by (simp add: protected_def get_tasks_def respond_def split: sum.splits)
next
  case (GetTask i)
  then show ?thesis
    by (simp add: protected_def get_task_def respond_def split: sum.splits option.splits)
next
  case (CreateTask b)
  then show ?thesis
    by (auto simp: protected_def post_tasks_def respond_def
             split: sum.splits prod.splits dest: createTask_store)
next
  case (PatchTask i b)
  then have "store (route env d tok r) = d
        \<or> (\<exists>data res. updateTask env d i data = (res, store (route env d tok r)))"
    by (auto simp: protected_def patch_task_def respond_def Let_def
             split: sum.splits prod.splits option.splits)
  then show ?thesis using updateTask_store by blast
next
  case (DeleteTask i)
  have "store (route env d tok r) = d
        \<or> store (route env d tok r) = d\<lparr>tasks := filter (\<lambda>t. task_id t \<noteq> i) (tasks d)\<rparr>"
    using DeleteTask
    by (auto simp: protected_def delete_task_def respond_def deleteTask_def Let_def
             split: sum.splits prod.splits option.splits)
  then show ?thesis by auto
qed


lemma find_mapped:
  "find (\<lambda>t. task_id t = j) (map (\<lambda>t. if task_id t = i then set_columns s due data t else t) xs)
     = map_option (\<lambda>t. if task_id t = i then set_columns s due data t else t)
         (find (\<lambda>t. task_id t = j) xs)"
  by (induction xs) auto

lemma find_filtered:
  "find (\<lambda>t. task_id t = j) (filter (\<lambda>t. task_id t \<noteq> i) xs)
     = (if j = i then None else find (\<lambda>t. task_id t = j) xs)"
  by (induction xs) auto

lemma find_appended:
  "find P (xs @ ys) = (case find P xs of None \<Rightarrow> find P ys | Some x \<Rightarrow> Some x)"
  by (induction xs) auto

lemma route_stamps:
  assumes inv: "stamps_ok d" and clock: "clock_ok env d"
  shows "stamps_ok (store (route env d tok r))"
proof -
  from inv clock have old: "\<forall>t\<in>set (tasks d). createdAt t \<le> updatedAt t \<and> updatedAt t \<le> now env"
    by (auto simp: stamps_ok_def clock_ok_def list_all_iff)
  from route_store [of env d tok r] show ?thesis
  proof (elim disjE exE conjE)
    assume "store (route env d tok r) = d"
    with inv show ?thesis by simp
  next
    fix u assume "store (route env d tok r) = d\<lparr>users := users d @ [u]\<rparr>"
    with inv show ?thesis by (simp add: stamps_ok_def)
  next
    fix task assume "store (route env d tok r) = d\<lparr>tasks := tasks d @ [task]\<rparr>"
      "createdAt task = now env" "updatedAt task = now env"
    with inv show ?thesis by (simp add: stamps_ok_def)
  next
    fix i due data
    assume "store (route env d tok r)
          = d\<lparr>tasks := map (\<lambda>t. if task_id t = i then set_columns (now env) due data t else t)
                          (tasks d)\<rparr>"
    with old show ?thesis
      by (auto simp: stamps_ok_def list_all_iff)
  next
    fix i assume "store (route env d tok r) = d\<lparr>tasks := filter (\<lambda>t. task_id t \<noteq> i) (tasks d)\<rparr>"
    with inv show ?thesis by (simp add: stamps_ok_def list_all_iff)
  qed
qed

lemma route_monotone:
  assumes clock: "clock_ok env d"
    and before: "find (\<lambda>t. task_id t = j) (tasks d) = Some t"
    and after: "find (\<lambda>t. task_id t = j) (tasks (store (route env d tok r))) = Some t'"
  shows "updatedAt t \<le> updatedAt t' \<and> createdAt t' = createdAt t"
proof -
  from before have mem: "t \<in> set (tasks d)" by (auto simp: find_Some_iff)
  with clock have le: "updatedAt t \<le> now env"
    by (auto simp: clock_ok_def list_all_iff)
  from route_store [of env d tok r] show ?thesis
  proof (elim disjE exE conjE)
    assume "store (route env d tok r) = d"
    with before after show ?thesis by simp
  next
    fix u assume "store (route env d tok r) = d\<lparr>users := users d @ [u]\<rparr>"
    with before after show ?thesis by simp
  next
    fix task assume "store (route env d tok r) = d\<lparr>tasks := tasks d @ [task]\<rparr>"
    with before after show ?thesis by (simp add: find_appended)
  next
    fix i due data
    assume "store (route env d tok r)
          = d\<lparr>tasks := map (\<lambda>t. if task_id t = i then set_columns (now env) due data t else t)
                          (tasks d)\<rparr>"
    with before after le show ?thesis
      by (auto simp: find_mapped split: if_splits)
  next
    fix i assume "store (route env d tok r) = d\<lparr>tasks := filter (\<lambda>t. task_id t \<noteq> i) (tasks d)\<rparr>"
    with after have "find (\<lambda>t. task_id t = j) (tasks d) = Some t'"
      by (simp add: find_filtered split: if_splits)
    with before show ?thesis by simp
  qed
qed

lemma run_stamps:
  "stamps_ok d \<Longrightarrow> clocks_ok d steps \<Longrightarrow> stamps_ok (run d steps)"
proof (induction steps arbitrary: d)
  case Nil
  then show ?case by simp
next
  case (Cons s steps)
  obtain env tok r where s: "s = (env, tok, r)" by (cases s) auto
  with Cons.prems have "stamps_ok (store (route env d tok r))"
    "clocks_ok (store (route env d tok r)) steps"
    by (auto intro: route_stamps)
  with Cons.IH s show ?case by simp
qed

lemma route_ids:
  "ids_ok d \<Longrightarrow> randomUUID env \<noteq> [] \<Longrightarrow> ids_ok (store (route env d tok r))"
  using route_store [of env d tok r] by (auto simp: ids_ok_def)


lemma route_added:
  assumes "tasks (store (route env d tok r)) = tasks d @ [task]"
  shows "createdAt task = now env \<and> updatedAt task = now env"
proof -
  have len: "length (tasks (store (route env d tok r))) = Suc (length (tasks d))"
    using assms by simp
  from route_store [of env d tok r] show ?thesis
  proof (elim disjE exE conjE)
    assume "store (route env d tok r) = d"
    with len show ?thesis by simp
  next
    fix u assume "store (route env d tok r) = d\<lparr>users := users d @ [u]\<rparr>"
    with len show ?thesis by simp
  next
    fix task' assume "store (route env d tok r) = d\<lparr>tasks := tasks d @ [task']\<rparr>"
      "createdAt task' = now env" "updatedAt task' = now env"
    with assms show ?thesis by simp
  next
    fix i due data
    assume "store (route env d tok r)
          = d\<lparr>tasks := map (\<lambda>t. if task_id t = i then set_columns (now env) due data t else t)
                          (tasks d)\<rparr>"
    with len show ?thesis by simp
  next
    fix i assume "store (route env d tok r) = d\<lparr>tasks := filter (\<lambda>t. task_id t \<noteq> i) (tasks d)\<rparr>"
    with len have "length (filter (\<lambda>t. task_id t \<noteq> i) (tasks d)) = Suc (length (tasks d))"
      by simp
    moreover have "length (filter (\<lambda>t. task_id t \<noteq> i) (tasks d)) \<le> length (tasks d)"
      by (rule length_filter_le)
    ultimately show ?thesis by simp
  qed
qed

text \<open>
  C7, with the premise it needs: the clock of each request is not behind the
  timestamps the store holds. \<open>createTask\<close> stamps \<open>createdAt\<close> and \<open>updatedAt\<close> with the
  one time of the request, whatever the client sent; \<open>updateTask\<close> sets \<open>updatedAt\<close> to
  the time of the request and keeps \<open>createdAt\<close>, whatever the patch; so does every
  request: a row it adds carries the time of the request twice, and a row it keeps has
  the \<open>createdAt\<close> it had and, when the clock is not behind the store, an \<open>updatedAt\<close>
  that is not smaller. With such a clock every request keeps \<open>createdAt \<le> updatedAt\<close> on
  all rows, and so does every sequence of requests, from the empty store on. (A parsed
  body has no \<open>createdAt\<close> or \<open>updatedAt\<close>: the schemas omit both, and \<open>parse\<close> drops what
  a schema does not name.)
\<close>

theorem timestamps_server_assigned:
  "(\<forall>t d'. createTask env d ins c = (Inr t, d')
        \<longrightarrow> createdAt t = now env \<and> updatedAt t = now env)
   \<and> (\<forall>t' d' old. updateTask env d i data = (Inr (Some t'), d')
          \<and> find (\<lambda>t. task_id t = i) (tasks d) = Some old
        \<longrightarrow> updatedAt t' = now env \<and> createdAt t' = createdAt old)
   \<and> (\<forall>task. tasks (store (route env d tok r)) = tasks d @ [task]
        \<longrightarrow> createdAt task = now env \<and> updatedAt task = now env)
   \<and> (clock_ok env d \<longrightarrow>
        (\<forall>j t t'. find (\<lambda>x. task_id x = j) (tasks d) = Some t
            \<and> find (\<lambda>x. task_id x = j) (tasks (store (route env d tok r))) = Some t'
          \<longrightarrow> updatedAt t \<le> updatedAt t' \<and> createdAt t' = createdAt t))
   \<and> (stamps_ok d \<and> clock_ok env d \<longrightarrow> stamps_ok (store (route env d tok r)))
   \<and> (stamps_ok d \<and> clocks_ok d steps \<longrightarrow> stamps_ok (run d steps))
   \<and> stamps_ok \<lparr>users = [], tasks = []\<rparr>"
proof -
  have created: "createdAt t = now env \<and> updatedAt t = now env"
    if "createTask env d ins c = (Inr t, d')" for t d'
  proof -
    from createTask_Inr [OF that] obtain due task where
      task: "task = \<lparr>task_id = randomUUID env, title = ins_title ins,
                     description = field_opt (ins_description ins), dueDate = due,
                     priority = (case ins_priority ins of None \<Rightarrow> Medium | Some p \<Rightarrow> p),
                     status = (case ins_status ins of None \<Rightarrow> Todo | Some s \<Rightarrow> s),
                     creatorId = c, assignedToId = field_opt (ins_assignedToId ins),
                     createdAt = now env, updatedAt = now env\<rparr>"
      and e: "enrichTask d' task = Inr t"
      by blast
    from enrichTask_Inr [OF e] have "Task.truncate t = task" by simp
    from truncate_fields [OF this] task show ?thesis by simp
  qed
  have updated: "updatedAt t' = now env \<and> createdAt t' = createdAt old"
    if "updateTask env d i data = (Inr (Some t'), d')"
      and "find (\<lambda>t. task_id t = i) (tasks d) = Some old" for t' d' old
    using updateTask_row [OF that] truncate_fields [of t'] by auto
  have empty: "stamps_ok \<lparr>users = [], tasks = []\<rparr>"
    by (simp add: stamps_ok_def)
  have 1: "\<forall>t d'. createTask env d ins c = (Inr t, d')
        \<longrightarrow> createdAt t = now env \<and> updatedAt t = now env"
    using created by blast
  have 2: "\<forall>t' d' old. updateTask env d i data = (Inr (Some t'), d')
          \<and> find (\<lambda>t. task_id t = i) (tasks d) = Some old
        \<longrightarrow> updatedAt t' = now env \<and> createdAt t' = createdAt old"
    using updated by blast
  have 3: "\<forall>task. tasks (store (route env d tok r)) = tasks d @ [task]
        \<longrightarrow> createdAt task = now env \<and> updatedAt task = now env"
    using route_added [of env d tok r] by blast
  have 4: "clock_ok env d \<longrightarrow>
        (\<forall>j t t'. find (\<lambda>x. task_id x = j) (tasks d) = Some t
            \<and> find (\<lambda>x. task_id x = j) (tasks (store (route env d tok r))) = Some t'
          \<longrightarrow> updatedAt t \<le> updatedAt t' \<and> createdAt t' = createdAt t)"
    using route_monotone [of env d _ _ tok r] by blast
  have 5: "stamps_ok d \<and> clock_ok env d \<longrightarrow> stamps_ok (store (route env d tok r))"
    using route_stamps [of d env tok r] by blast
  have 6: "stamps_ok d \<and> clocks_ok d steps \<longrightarrow> stamps_ok (run d steps)"
    using run_stamps [of d steps] by blast
  from 1 2 3 4 5 6 empty show ?thesis by (intro conjI)
qed

theorem timestamps_server_assigned_witness:
  "stamps_ok sample_db
   \<and> clocks_ok sample_db
        [(sample_env, Some ''u1:ann@example.org'',
          CreateTask (JObj [(''title'', JStr ''Plan''), (''dueDate'', JStr ''2025-03-01'')])),
         (sample_env\<lparr>now := 3000\<rparr>, Some ''u1:ann@example.org'',
          PatchTask ''t2'' (JObj [(''status'', JStr ''completed'')]))]
   \<and> stamps_ok (run sample_db
        [(sample_env, Some ''u1:ann@example.org'',
          CreateTask (JObj [(''title'', JStr ''Plan''), (''dueDate'', JStr ''2025-03-01'')])),
         (sample_env\<lparr>now := 3000\<rparr>, Some ''u1:ann@example.org'',
          PatchTask ''t2'' (JObj [(''status'', JStr ''completed'')]))])
   \<and> map updatedAt (tasks (run sample_db
        [(sample_env, Some ''u1:ann@example.org'',
          CreateTask (JObj [(''title'', JStr ''Plan''), (''dueDate'', JStr ''2025-03-01'')])),
         (sample_env\<lparr>now := 3000\<rparr>, Some ''u1:ann@example.org'',
          PatchTask ''t2'' (JObj [(''status'', JStr ''completed'')]))])) = [1000, 3000]"
proof -
  let ?steps = "[(sample_env, Some ''u1:ann@example.org'',
          CreateTask (JObj [(''title'', JStr ''Plan''), (''dueDate'', JStr ''2025-03-01'')])),
         (sample_env\<lparr>now := 3000\<rparr>, Some ''u1:ann@example.org'',
          PatchTask ''t2'' (JObj [(''status'', JStr ''completed'')]))]"
  have inv: "stamps_ok sample_db"
    by (simp add: stamps_ok_def sample_db_def task1_def)
  have clocks: "clocks_ok sample_db ?steps"
    by code_simp
  have stamps: "map updatedAt (tasks (run sample_db ?steps)) = [1000, 3000]"
    by code_simp
  from timestamps_server_assigned [of sample_env sample_db _ _ _ _ _ _ ?steps] inv clocks
  have "stamps_ok (run sample_db ?steps)" by blast
  with inv clocks stamps show ?thesis by simp
qed

text \<open>
  C7 as stated fails: \<open>updateTask\<close> writes \<open>new Date()\<close> without comparing it with
  anything. A PATCH that the server handles while its clock reads 500 is answered 200
  and leaves the task created at 1000 with \<open>updatedAt = 500\<close>: smaller than its
  \<open>createdAt\<close>, and smaller than the \<open>updatedAt\<close> it had.
\<close>

theorem clock_behind_store_breaks_order:
  "http_status (reply (route (sample_env\<lparr>now := 500\<rparr>) sample_db (Some ''u1:ann@example.org'')
                  (PatchTask ''t1'' (JObj [(''status'', JStr ''completed'')])))) = 200
   \<and> map (\<lambda>t. (createdAt t, updatedAt t)) (tasks sample_db) = [(1000, 1000)]
   \<and> map (\<lambda>t. (createdAt t, updatedAt t))
        (tasks (store (route (sample_env\<lparr>now := 500\<rparr>) sample_db (Some ''u1:ann@example.org'')
                  (PatchTask ''t1'' (JObj [(''status'', JStr ''completed'')])))))
       = [(1000, 500)]
   \<and> \<not> stamps_ok (store (route (sample_env\<lparr>now := 500\<rparr>) sample_db (Some ''u1:ann@example.org'')
                  (PatchTask ''t1'' (JObj [(''status'', JStr ''completed'')]))))"
  by code_simp

section \<open>Password hashes stay in the store\<close>

lemma no_password_message [simp]: "no_password (JObj [(''message'', JStr m)])"
  by (simp add: no_password_def)

lemma no_password_handleError [simp]: "no_password (body (handleError e dm))"
  by (cases e) simp_all

lemma no_password_rest [simp]:
  "no_password (JObj (rest_without ''password'' (user_row u)))"
  by (simp add: no_password_def rest_without_def user_row_def opt_str_def split: option.splits)

lemma no_password_public [simp]: "no_password (JObj (toPublicUser u))"
  by (simp add: toPublicUser_def)

lemma task_row_no_password [simp]:
  "\<not> list_ex (\<lambda>kv. fst kv = ''password'' \<or> has_field ''password'' (snd kv)) (task_row t)"
  by (simp add: task_row_def opt_str_def opt_date_def split: option.splits)

lemma no_password_enriched:
  assumes "enrichTask d task = Inr t"
  shows "no_password (twr_js t)"
proof -
  from enrichTask_Inr [OF assms] obtain c where c: "creator t = toPublicUser c"
    and a: "assignedTo t = None \<or> (\<exists>u. assignedTo t = Some (toPublicUser u))"
    by blast
  have "no_password (JObj (creator t))" using c by simp
  moreover have "no_password (case assignedTo t of None \<Rightarrow> JNull | Some x \<Rightarrow> JObj x)"
    using a by (auto simp: no_password_def[of JNull])
  ultimately show ?thesis
    by (simp add: twr_js_def no_password_def)
qed


lemma clean_respond [simp]: "clean (respond d r) = no_password (body r)"
  by (simp add: clean_def respond_def)

lemma no_password_session [simp]: "no_password (body (session_reply env st u))"
  using no_password_rest [of u] by (simp add: session_reply_def no_password_def)

lemma clean_register: "clean (post_auth_register env d b)"
  by (simp add: post_auth_register_def split: sum.splits prod.splits)

lemma clean_login: "clean (post_auth_login env d b)"
  by (simp add: post_auth_login_def split: sum.splits option.splits)

lemma clean_logout: "clean (post_auth_logout d)"
  by (simp add: post_auth_logout_def message_reply_def json_reply_def)

lemma clean_me: "clean (get_auth_me d u)"
  using no_password_rest
  by (simp add: get_auth_me_def no_password_def split: option.splits)

lemma clean_users: "clean (get_users d)"
proof -
  have "\<not> list_ex (has_field ''password'') (map JObj (map toPublicUser us))" for us
    using no_password_public by (induction us) (simp_all add: no_password_def)
  then show ?thesis
    by (simp add: get_users_def getAllUsers_def no_password_def)
qed

lemma no_password_all:
  assumes "enrich_all d ts = Inr xs"
  shows "no_password (JArr (map twr_js xs))"
proof -
  from enrich_all_Inr [OF assms] have "\<forall>x\<in>set xs. no_password (twr_js x)"
    using no_password_enriched by blast
  then show ?thesis
    by (simp add: no_password_def list_ex_iff)
qed

lemma clean_tasks: "clean (get_tasks d)"
  using no_password_all by (simp add: get_tasks_def getAllTasks_def split: sum.splits)

lemma no_password_fetched:
  "getTask d i = Inr (Some t) \<Longrightarrow> no_password (twr_js t)"
  using getTask_Some no_password_enriched by blast

lemma clean_task: "clean (get_task d i)"
  using no_password_fetched by (simp add: get_task_def split: sum.splits option.splits)

lemma no_password_event [simp]:
  "no_password (JObj [(''taskId'', JStr i), (''data'', v)]) = no_password v"
  "no_password (JObj [(''taskId'', JStr i), (''userId'', JStr a), (''data'', v)]) = no_password v"
  "no_password (JObj [(''taskId'', JStr i)])"
  by (simp_all add: no_password_def)

lemma clean_post: "clean (post_tasks env d u b)"
proof -
  have "no_password (twr_js t)" if "createTask env d ins c = (Inr t, d')" for ins c t d'
    using createTask_Inr [OF that] no_password_enriched by blast
  then show ?thesis
    by (simp add: post_tasks_def clean_def respond_def split: sum.splits prod.splits)
qed

lemma clean_patch: "clean (patch_task env d i b)"
proof -
  have "no_password (twr_js t)" if "updateTask env d i data = (Inr (Some t), d')" for data t d'
    using updateTask_Some [OF that] no_password_enriched by blast
  then show ?thesis
    by (simp add: patch_task_def clean_def respond_def Let_def
             split: sum.splits prod.splits option.splits field.splits)
qed

lemma clean_delete: "clean (delete_task d i)"
  by (simp add: delete_task_def clean_def respond_def split: sum.splits prod.splits option.splits)

lemma clean_protected:
  "(\<And>u. clean (h u)) \<Longrightarrow> clean (protected env d tok h)"
  by (auto simp: protected_def authMiddleware_def split: sum.splits option.splits if_splits)

lemma clean_route: "clean (route env d tok r)"
  by (cases r)
     (simp_all add: clean_register clean_login clean_logout clean_me clean_users clean_tasks
        clean_task clean_post clean_patch clean_delete clean_protected)


text \<open>
  C1. For every route, every store, every cookie and every behaviour of the
  collaborators, no object in the response body has a \<open>password\<close> property, at any
  depth, and neither has the payload of any event the request emits, nor what \<open>io.emit\<close>
  delivers of it to any socket. The row of a user does have one: the public projection
  is the row without it, with its other properties in place.
\<close>

theorem no_password_in_payloads:
  "no_password (body (reply (route env d tok r)))
   \<and> (\<forall>ev\<in>set (emitted (route env d tok r)). no_password (snd ev))
   \<and> (\<forall>sock ev. (sock, ev) \<in> set (concat (map (io_emit sockets) (emitted (route env d tok r))))
          \<longrightarrow> no_password (snd ev))
   \<and> \<not> no_password (JObj (user_row u))
   \<and> map fst (toPublicUser u) = [''id'', ''username'', ''email'', ''displayName'', ''createdAt'']"
proof -
  from clean_route [of env d tok r]
  have 1: "no_password (body (reply (route env d tok r)))"
    and 2: "\<forall>ev\<in>set (emitted (route env d tok r)). no_password (snd ev)"
    by (simp_all add: clean_def list_all_iff)
  from 2 have 3: "\<forall>sock ev. (sock, ev) \<in> set (concat (map (io_emit sockets) (emitted (route env d tok r))))
          \<longrightarrow> no_password (snd ev)"
    by (auto simp: io_emit_def)
  have 4: "\<not> no_password (JObj (user_row u))"
    by (simp add: no_password_def user_row_def)
  have 5: "map fst (toPublicUser u) = [''id'', ''username'', ''email'', ''displayName'', ''createdAt'']"
    by (simp add: toPublicUser_def rest_without_def user_row_def)
  from 1 2 3 4 5 show ?thesis by (intro conjI)
qed

theorem no_password_in_payloads_witness:
  "no_password (body (reply (route sample_env sample_db (Some ''u1:ann@example.org'')
        (PatchTask ''t1'' (JObj [(''assignedToId'', JStr ''u2'')])))))
   \<and> list_all (\<lambda>ev. no_password (snd ev))
        (emitted (route sample_env sample_db (Some ''u1:ann@example.org'')
           (PatchTask ''t1'' (JObj [(''assignedToId'', JStr ''u2'')]))))
   \<and> length (emitted (route sample_env sample_db (Some ''u1:ann@example.org'')
           (PatchTask ''t1'' (JObj [(''assignedToId'', JStr ''u2'')])))) = 2
   \<and> has_field ''creator'' (body (reply (route sample_env sample_db (Some ''u1:ann@example.org'')
        (PatchTask ''t1'' (JObj [(''assignedToId'', JStr ''u2'')])))))
   \<and> has_field ''password'' (JObj (user_row ann))"
proof -
  let ?out = "route sample_env sample_db (Some ''u1:ann@example.org'')
        (PatchTask ''t1'' (JObj [(''assignedToId'', JStr ''u2'')]))"
  have n: "length (emitted ?out) = 2" by code_simp
  have c: "has_field ''creator'' (body (reply ?out))" by code_simp
  have p: "has_field ''password'' (JObj (user_row ann))" by code_simp
  note inst = no_password_in_payloads [of sample_env sample_db "Some ''u1:ann@example.org''"
         "PatchTask ''t1'' (JObj [(''assignedToId'', JStr ''u2'')])" "[] :: unit list" ann]
  from inst have b: "no_password (body (reply ?out))" by (rule conjunct1)
  from inst have "\<forall>ev\<in>set (emitted ?out). no_password (snd ev)" by blast
  then have e: "list_all (\<lambda>ev. no_password (snd ev)) (emitted ?out)"
    by (simp only: list_all_iff)
  from b e n c p show ?thesis by (intro conjI)
qed

end
